theory Spec2Isabelle
  imports Complex_Main
begin

section \<open>JavaScript values used by the two modules\<close>

text \<open>
  Strings are modelled as \<open>string\<close>, one \<open>char\<close> per code unit, for code units below 256.
  A thrown \<open>Error\<close> is a record of its \<open>name\<close> and \<open>message\<close>; a function that may
  throw returns \<open>js_error + 'a\<close>.
\<close>

record js_error =
  err_name :: string
  err_message :: string

definition new_Error :: "string \<Rightarrow> js_error" where
  "new_Error msg = \<lparr>err_name = ''Error'', err_message = msg\<rparr>"

definition backslash :: char where
  "backslash = CHR 0x5C"

definition dquote :: char where
  "dquote = CHR 0x22"

definition squote :: char where
  "squote = CHR 0x27"

definition is_digit :: "char \<Rightarrow> bool" where
  "is_digit c = (c \<in> set ''0123456789'')"

definition is_space :: "char \<Rightarrow> bool" where
  \<comment> \<open>the regex class \<open>\s\<close> and the white space of \<open>trim\<close>: tab, LF, VT, FF, CR, space, no-break space\<close>
  "is_space c = (c \<in> {CHR 0x09, CHR 0x0A, CHR 0x0B, CHR 0x0C, CHR 0x0D, CHR 0x20, CHR 0xA0})"

definition is_line_terminator :: "char \<Rightarrow> bool" where
  "is_line_terminator c = (c \<in> {CHR 0x0A, CHR 0x0D})"

definition lower_char :: "char \<Rightarrow> char" where
  \<comment> \<open>\<open>A\<close> to \<open>Z\<close>, and the capital letters of Latin-1 (\<open>0xC0\<close> to \<open>0xDE\<close> without the sign \<open>0xD7\<close>)\<close>
  "lower_char c =
     (let n = (of_char c :: nat) in
      if (65 \<le> n \<and> n \<le> 90) \<or> (192 \<le> n \<and> n \<le> 222 \<and> n \<noteq> 215) then char_of (n + 32) else c)"

definition toLowerCase :: "string \<Rightarrow> string" where
  "toLowerCase s = map lower_char s"

definition trim :: "string \<Rightarrow> string" where
  "trim s = rev (dropWhile is_space (rev (dropWhile is_space s)))"

definition endsWith :: "string \<Rightarrow> string \<Rightarrow> bool" where
  "endsWith s suffix = (length suffix \<le> length s \<and> drop (length s - length suffix) s = suffix)"

subsection \<open>Numbers\<close>

text \<open>
  \<open>parseDuration\<close> computes with the results of \<open>Number(...)\<close>, which may be \<open>NaN\<close>.
  \<open>js_Number\<close> covers the numeric literals made of decimal digits, the blank string, and
  returns \<open>NaN\<close> otherwise; signs, fractions, exponents, radix prefixes and \<open>Infinity\<close> are
  left out. Every string that \<open>parseDuration\<close> passes to it is either the default \<open>0\<close> or
  starts with a backslash (lemma \<open>duration_groups_backslash\<close> below), and no numeric
  literal contains a backslash.
\<close>

datatype jsnum = NaN | Fin nat

fun jadd :: "jsnum \<Rightarrow> jsnum \<Rightarrow> jsnum" where
  "jadd (Fin a) (Fin b) = Fin (a + b)"
| "jadd _ _ = NaN"

fun jmul :: "jsnum \<Rightarrow> jsnum \<Rightarrow> jsnum" where
  "jmul (Fin a) (Fin b) = Fin (a * b)"
| "jmul _ _ = NaN"

fun truthy :: "jsnum \<Rightarrow> bool" where
  "truthy NaN = False"
| "truthy (Fin n) = (n \<noteq> 0)"

definition digit_val :: "char \<Rightarrow> nat" where
  "digit_val c = of_char c - 48"

definition js_Number :: "string \<Rightarrow> jsnum" where
  "js_Number s =
     (let t = trim s in
      if t = [] then Fin 0
      else if list_all is_digit t then Fin (foldl (\<lambda>a c. 10 * a + digit_val c) 0 t)
      else NaN)"

definition Number_opt :: "string option \<Rightarrow> jsnum" where
  \<comment> \<open>\<open>Number(undefined)\<close> is \<open>NaN\<close>\<close>
  "Number_opt v = (case v of None \<Rightarrow> NaN | Some s \<Rightarrow> js_Number s)"

subsection \<open>Regular expressions\<close>

text \<open>
  The regular expressions of the source are built from literals, character classes,
  a greedy \<open>+\<close> on a single character class, sequence, alternation, a greedy \<open>?\<close> and
  capture groups. \<open>re_match r s caps\<close> lists every way \<open>r\<close> matches a prefix of \<open>s\<close>, as
  the remaining input with the captures, in the order a backtracking matcher tries them;
  \<open>re_search\<close> takes the first result at the leftmost start position, as
  \<open>String.prototype.match\<close> without the \<open>g\<close> flag does.
\<close>

datatype regex =
    Lit string
  | One "char \<Rightarrow> bool"
  | Plus "char \<Rightarrow> bool"
  | Seq regex regex
  | Alt regex regex
  | Opt regex
  | Grp string regex

type_synonym captures = "string \<rightharpoonup> string"

fun re_match :: "regex \<Rightarrow> string \<Rightarrow> captures \<Rightarrow> (string \<times> captures) list" where
  "re_match (Lit l) s caps = (if take (length l) s = l then [(drop (length l) s, caps)] else [])"
| "re_match (One P) s caps = (case s of [] \<Rightarrow> [] | c # t \<Rightarrow> if P c then [(t, caps)] else [])"
| "re_match (Plus P) s caps =
     map (\<lambda>k. (drop k s, caps)) (rev [1 ..< Suc (length (takeWhile P s))])"
| "re_match (Seq a b) s caps =
     concat (map (\<lambda>(s', caps'). re_match b s' caps') (re_match a s caps))"
| "re_match (Alt a b) s caps = re_match a s caps @ re_match b s caps"
| "re_match (Opt a) s caps = re_match a s caps @ [(s, caps)]"
| "re_match (Grp g a) s caps =
     map (\<lambda>(s', caps'). (s', caps'(g \<mapsto> take (length s - length s') s))) (re_match a s caps)"

fun re_search :: "regex \<Rightarrow> string \<Rightarrow> captures option" where
  "re_search r [] =
     (case re_match r [] Map.empty of (rest, caps) # _ \<Rightarrow> Some caps | [] \<Rightarrow> None)"
| "re_search r (x # t) =
     (case re_match r (x # t) Map.empty of (rest, caps) # _ \<Rightarrow> Some caps | [] \<Rightarrow> re_search r t)"

section \<open>The test runner\<close>

record TestFailure =
  testName :: string
  message :: "string option"
  stackTrace :: "string option"

record TestSummary =
  passed :: nat
  failed :: nat
  skipped :: nat
  total :: nat
  durationMs :: nat

record TestRunResult =
  success :: bool
  failures :: "TestFailure list"
  summary :: TestSummary
  resultsFile :: "string option"

subsection \<open>parseResultsDirectory\<close>

text \<open>
  The pattern of the source is
  \<^verbatim>\<open>/--results-directory\s+((?:\"[^\"]+\")|(?:'[^']+')|[^\\s]+)/\<close>. In a regular expression
  literal \<^verbatim>\<open>\"\<close> is the double quote, and the class \<^verbatim>\<open>[^\\s]\<close> excludes the backslash
  and the letter \<open>s\<close> (the doubled backslash is an escaped backslash, so \<open>s\<close> stands for
  itself).
\<close>

definition results_directory_re :: regex where
  "results_directory_re =
     Seq (Lit ''--results-directory'')
       (Seq (Plus is_space)
          (Grp ''1''
             (Alt (Seq (Lit [dquote]) (Seq (Plus (\<lambda>c. c \<noteq> dquote)) (Lit [dquote])))
                (Alt (Seq (Lit [squote]) (Seq (Plus (\<lambda>c. c \<noteq> squote)) (Lit [squote])))
                   (Plus (\<lambda>c. c \<noteq> backslash \<and> c \<noteq> CHR ''s''))))))"

definition is_quote :: "char \<Rightarrow> bool" where
  "is_quote c = (c = squote \<or> c = dquote)"

definition strip_quotes :: "string \<Rightarrow> string" where
  \<comment> \<open>\<^verbatim>\<open>raw.replace(/^['"]|['"]$/g, '')\<close>: a quote at the start, then a quote at the end of what is left\<close>
  "strip_quotes raw =
     (let s1 = (case raw of [] \<Rightarrow> [] | c # t \<Rightarrow> if is_quote c then t else raw)
      in if s1 \<noteq> [] \<and> is_quote (last s1) then butlast s1 else s1)"

definition parseResultsDirectory :: "string \<Rightarrow> string option" where
  "parseResultsDirectory command =
     (case re_search results_directory_re command of
        None \<Rightarrow> None
      | Some groups \<Rightarrow> (case groups ''1'' of None \<Rightarrow> None | Some raw \<Rightarrow> Some (strip_quotes raw)))"

subsection \<open>parseDuration\<close>

text \<open>
  The pattern of the source is
  \<^verbatim>\<open>/(?<h>\\d+):(?<m>\\d+):(?<s>\\d+)(?:\\.(?<ms>\\d+))?/\<close>: each \<^verbatim>\<open>\\d+\<close> is an escaped
  backslash followed by one or more letters \<open>d\<close>, and \<^verbatim>\<open>\\.\<close> is a backslash followed by
  any character that is not a line terminator.
\<close>

definition backslash_ds :: regex where
  "backslash_ds = Seq (Lit [backslash]) (Plus (\<lambda>c. c = CHR ''d''))"

definition duration_re :: regex where
  "duration_re =
     Seq (Grp ''h'' backslash_ds)
       (Seq (Lit '':'')
          (Seq (Grp ''m'' backslash_ds)
             (Seq (Lit '':'')
                (Seq (Grp ''s'' backslash_ds)
                   (Opt (Seq (Lit [backslash])
                           (Seq (One (\<lambda>c. \<not> is_line_terminator c))
                              (Grp ''ms'' backslash_ds))))))))"

definition parseDuration :: "string \<Rightarrow> jsnum" where
  "parseDuration duration =
     (case re_search duration_re duration of
        None \<Rightarrow> Fin 0
      | Some groups \<Rightarrow>
          (let hours = Number_opt (groups ''h'');
               minutes = Number_opt (groups ''m'');
               seconds = Number_opt (groups ''s'');
               milliseconds =
                 js_Number (take 3 (case groups ''ms'' of None \<Rightarrow> ''0'' | Some t \<Rightarrow> t))
           in jadd (jadd (jadd (jmul hours (Fin 3600000)) (jmul minutes (Fin 60000)))
                      (jmul seconds (Fin 1000)))
                milliseconds))"

subsection \<open>The parsed artifact\<close>

text \<open>
  \<open>parseTrx\<close> reads the value that the XML parser returns through the declared shape
  \<open>TestRun?.Results?.UnitTestResult\<close>; attributes are strings, and every level may be
  absent. For one \<open>UnitTestResult\<close> element the parser yields an object when the element
  has attributes or child elements, and otherwise its text: the empty string for an empty
  element, a number or a boolean when the text reads as one. \<open>UnitTestResult\<close> holds
  that value when the document has one such element, and an array of these values when it
  has several.
\<close>

record error_info =
  Message :: "string option"
  StackTrace :: "string option"

record test_output =
  ErrorInfo :: "error_info option"

record unit_test_result =
  attr_outcome :: "string option"
  attr_testName :: "string option"
  attr_duration :: "string option"
  Output :: "test_output option"

datatype xml_value = XElement unit_test_result | XText string | XNumber real | XBool bool

datatype utr_value = Single xml_value | Many "xml_value list"

record results_node =
  UnitTestResult :: "utr_value option"

record test_run =
  Results :: "results_node option"

record trx_json =
  TestRun :: "test_run option"

definition falsy :: "xml_value \<Rightarrow> bool" where
  \<comment> \<open>\<open>!value\<close> on a value that is present: the empty string, 0 and \<open>false\<close>; objects are truthy\<close>
  "falsy x = (case x of XElement r \<Rightarrow> False | XText s \<Rightarrow> s = [] | XNumber n \<Rightarrow> n = 0
              | XBool b \<Rightarrow> \<not> b)"

definition toArray :: "utr_value option \<Rightarrow> xml_value list" where
  \<comment> \<open>\<open>undefined\<close> and a falsy single value give \<open>[]\<close>; an array, also an empty one, is truthy\<close>
  "toArray v =
     (case v of
        None \<Rightarrow> []
      | Some (Many xs) \<Rightarrow> xs
      | Some (Single x) \<Rightarrow> if falsy x then [] else [x])"

definition as_record :: "xml_value \<Rightarrow> unit_test_result" where
  \<comment> \<open>the properties the loop reads: on a string, a number or a boolean each of them is \<open>undefined\<close>\<close>
  "as_record x =
     (case x of
        XElement r \<Rightarrow> r
      | _ \<Rightarrow> \<lparr>attr_outcome = None, attr_testName = None, attr_duration = None, Output = None\<rparr>)"

definition String_or :: "string option \<Rightarrow> string \<Rightarrow> string" where
  \<comment> \<open>\<^verbatim>\<open>String(v ?? dflt)\<close> on a string attribute\<close>
  "String_or v dflt = (case v of None \<Rightarrow> dflt | Some s \<Rightarrow> s)"

definition outcome_of :: "unit_test_result \<Rightarrow> string" where
  "outcome_of r = toLowerCase (String_or (attr_outcome r) [])"

definition failure_of :: "unit_test_result \<Rightarrow> TestFailure" where
  "failure_of r =
     \<lparr>testName = String_or (attr_testName r) ''Unknown test'',
      message = Option.bind (Option.bind (Output r) ErrorInfo) Message,
      stackTrace = Option.bind (Option.bind (Output r) ErrorInfo) StackTrace\<rparr>"

text \<open>The \<open>for\<close> loop of \<open>parseTrx\<close>, over \<open>failures\<close>, \<open>passed\<close>, \<open>skipped\<close> and \<open>durationMs\<close>.\<close>

fun trx_loop ::
  "xml_value list \<Rightarrow> TestFailure list \<Rightarrow> nat \<Rightarrow> nat \<Rightarrow> nat
     \<Rightarrow> TestFailure list \<times> nat \<times> nat \<times> nat" where
  "trx_loop [] fls p s d = (fls, p, s, d)"
| "trx_loop (x # rs) fls p s d =
     (let r = as_record x;
          outcome = outcome_of r;
          duration = parseDuration (String_or (attr_duration r) []);
          d' = (if truthy duration then (case duration of Fin n \<Rightarrow> d + n | NaN \<Rightarrow> d) else d)
      in if outcome = ''passed'' then trx_loop rs fls (p + 1) s d'
         else if outcome = ''notexecuted'' \<or> outcome = ''skipped'' then trx_loop rs fls p (s + 1) d'
         else trx_loop rs (fls @ [failure_of r]) p s d')"

definition utr_slot :: "trx_json \<Rightarrow> utr_value option" where
  \<comment> \<open>\<^verbatim>\<open>json.TestRun?.Results?.UnitTestResult\<close>\<close>
  "utr_slot json = Option.bind (Option.bind (TestRun json) Results) UnitTestResult"

definition trx_records :: "trx_json \<Rightarrow> xml_value list" where
  "trx_records json = toArray (utr_slot json)"


definition lone_falsy :: "trx_json \<Rightarrow> bool" where
  "lone_falsy json = (case utr_slot json of Some (Single x) \<Rightarrow> falsy x | _ \<Rightarrow> False)"


definition parseTrx_json :: "trx_json \<Rightarrow> string \<Rightarrow> TestRunResult" where
  \<comment> \<open>\<open>parseTrx\<close> from the parser's result on\<close>
  "parseTrx_json json trxPath =
     (let results = trx_records json in
      case trx_loop results [] 0 0 0 of
        (fls, p, s, d) \<Rightarrow>
          \<lparr>success = (length fls = 0),
           failures = fls,
           summary = \<lparr>passed = p, failed = length fls, skipped = s,
                      total = length results, durationMs = d\<rparr>,
           resultsFile = Some trxPath\<rparr>)"

subsection \<open>The environment of the test runner\<close>

text \<open>
  The file system, the path library, the XML parser and the spawned shell command are
  outside the repository. They are parameters: the file system is a state of type
  \<open>'fs\<close>; \<open>mkdir\<close> (with \<open>recursive: true\<close>) and the spawned command may change it,
  \<open>readdir\<close>, \<open>stat\<close> and \<open>readFile\<close> are the read operations of the library. The spawned
  command yields the chunks it writes to stdout and stderr, in order of arrival, and its
  exit code (\<open>None\<close> for \<open>null\<close>, a process ended by a signal). \<open>mtimeMs\<close> is a number.
\<close>

record 'fs node_env =
  mkdir :: "string \<Rightarrow> 'fs \<Rightarrow> js_error option \<times> 'fs"
  readdir :: "string \<Rightarrow> 'fs \<Rightarrow> js_error + string list"
  stat_mtimeMs :: "string \<Rightarrow> 'fs \<Rightarrow> js_error + real"
  readFile :: "string \<Rightarrow> 'fs \<Rightarrow> js_error + string"
  path_join :: "string \<Rightarrow> string \<Rightarrow> string"
  XMLParser_parse :: "string \<Rightarrow> js_error + trx_json"
  spawn :: "string \<Rightarrow> string \<Rightarrow> 'fs \<Rightarrow> string list \<times> int option \<times> 'fs"

text \<open>
  Every function of the test runner is a transformer of the state outside it: the file
  system, the calls made so far to the file system and to the process library, and the
  text appended so far to the output channel. The state changes only through the
  operations below, one for each library call in the source; each call records itself.
\<close>

datatype fs_call =
    CallMkdir string
  | CallSpawn string string
  | CallReaddir string
  | CallStat string
  | CallReadFile string

record 'fs io_state =
  io_fs :: 'fs
  io_calls :: "fs_call list"
  io_output :: "string list"

definition io_init :: "'fs \<Rightarrow> 'fs io_state" where
  "io_init fs = \<lparr>io_fs = fs, io_calls = [], io_output = []\<rparr>"

definition fs_mkdir :: "'fs node_env \<Rightarrow> string \<Rightarrow> 'fs io_state \<Rightarrow> js_error option \<times> 'fs io_state" where
  \<comment> \<open>\<^verbatim>\<open>fs.mkdir(dir, { recursive: true })\<close>\<close>
  "fs_mkdir env dir io =
     (case mkdir env dir (io_fs io) of
        (err, fs') \<Rightarrow> (err, io\<lparr>io_fs := fs', io_calls := io_calls io @ [CallMkdir dir]\<rparr>))"

definition fs_readdir :: "'fs node_env \<Rightarrow> string \<Rightarrow> 'fs io_state \<Rightarrow> (js_error + string list) \<times> 'fs io_state" where
  "fs_readdir env dir io =
     (readdir env dir (io_fs io), io\<lparr>io_calls := io_calls io @ [CallReaddir dir]\<rparr>)"

definition fs_stat :: "'fs node_env \<Rightarrow> string \<Rightarrow> 'fs io_state \<Rightarrow> (js_error + real) \<times> 'fs io_state" where
  \<comment> \<open>\<^verbatim>\<open>(await fs.stat(p)).mtimeMs\<close>\<close>
  "fs_stat env p io =
     (stat_mtimeMs env p (io_fs io), io\<lparr>io_calls := io_calls io @ [CallStat p]\<rparr>)"

definition fs_readFile :: "'fs node_env \<Rightarrow> string \<Rightarrow> 'fs io_state \<Rightarrow> (js_error + string) \<times> 'fs io_state" where
  "fs_readFile env p io =
     (readFile env p (io_fs io), io\<lparr>io_calls := io_calls io @ [CallReadFile p]\<rparr>)"

definition spawn_command ::
  "'fs node_env \<Rightarrow> string \<Rightarrow> string \<Rightarrow> 'fs io_state \<Rightarrow> int option \<times> 'fs io_state" where
  \<comment> \<open>the child process from \<open>spawn\<close> to its \<open>close\<close> event: the two \<open>data\<close> handlers append
      every chunk to the output channel; the result is the exit code\<close>
  "spawn_command env command cwd io =
     (case spawn env command cwd (io_fs io) of
        (chunks, code, fs') \<Rightarrow>
          (code, io\<lparr>io_fs := fs', io_calls := io_calls io @ [CallSpawn command cwd],
                    io_output := io_output io @ chunks\<rparr>))"

definition output_appendLine :: "string \<Rightarrow> 'fs io_state \<Rightarrow> 'fs io_state" where
  "output_appendLine line io = io\<lparr>io_output := io_output io @ [line @ [CHR 0x0A]]\<rparr>"

subsection \<open>Locating and reading the artifact\<close>

definition ensureDirectory :: "'fs node_env \<Rightarrow> string \<Rightarrow> 'fs io_state \<Rightarrow> 'fs io_state" where
  \<comment> \<open>the error of \<open>mkdir\<close>, if any, is caught and ignored\<close>
  "ensureDirectory env dir io = snd (fs_mkdir env dir io)"

fun stat_all ::
  "'fs node_env \<Rightarrow> string \<Rightarrow> string list \<Rightarrow> 'fs io_state
     \<Rightarrow> (js_error + (string \<times> real) list) \<times> 'fs io_state" where
  \<comment> \<open>\<open>Promise.all\<close> over the mapped files: every \<open>stat\<close> is issued, and one rejection
      rejects the whole\<close>
  "stat_all env dir [] io = (Inr [], io)"
| "stat_all env dir (file # files) io =
     (case fs_stat env (path_join env dir file) io of
        (r, io1) \<Rightarrow>
          (case stat_all env dir files io1 of
             (rs, io2) \<Rightarrow>
               ((case r of
                   Inl e \<Rightarrow> Inl e
                 | Inr t \<Rightarrow> (case rs of Inl e \<Rightarrow> Inl e | Inr sts \<Rightarrow> Inr ((file, t) # sts))),
                io2)))"

definition is_trx_file :: "string \<Rightarrow> bool" where
  \<comment> \<open>the filter of \<open>findLatestTrx\<close>: \<^verbatim>\<open>(f) => f.toLowerCase().endsWith('.trx')\<close>\<close>
  "is_trx_file f = endsWith (toLowerCase f) ''.trx''"

definition findLatestTrx ::
  "'fs node_env \<Rightarrow> string \<Rightarrow> 'fs io_state \<Rightarrow> string option \<times> 'fs io_state" where
  \<comment> \<open>every error is caught and gives \<open>undefined\<close>; the sort is stable, by descending time\<close>
  "findLatestTrx env resultsDir io =
     (case fs_readdir env resultsDir io of
        (Inl e, io1) \<Rightarrow> (None, io1)
      | (Inr files, io1) \<Rightarrow>
          (let trxFiles = filter is_trx_file files in
           if length trxFiles = 0 then (None, io1)
           else (case stat_all env resultsDir trxFiles io1 of
                   (Inl e, io2) \<Rightarrow> (None, io2)
                 | (Inr stats, io2) \<Rightarrow>
                     (case sort_key (\<lambda>st. - snd st) stats of
                        [] \<Rightarrow> (None, io2)
                      | latest # _ \<Rightarrow> (Some (path_join env resultsDir (fst latest)), io2)))))"

definition parseTrx ::
  "'fs node_env \<Rightarrow> string \<Rightarrow> 'fs io_state \<Rightarrow> (js_error + TestRunResult) \<times> 'fs io_state" where
  "parseTrx env trxPath io =
     (case fs_readFile env trxPath io of
        (Inl e, io1) \<Rightarrow> (Inl e, io1)
      | (Inr content, io1) \<Rightarrow>
          (case XMLParser_parse env content of
             Inl e \<Rightarrow> (Inl e, io1)
           | Inr json \<Rightarrow> (Inr (parseTrx_json json trxPath), io1)))"

subsection \<open>runTests\<close>

definition exit_only :: "int option \<Rightarrow> TestRunResult" where
  \<comment> \<open>the result resolved when no artifact was parsed; \<^verbatim>\<open>code && code !== 0\<close> is false for \<open>null\<close>\<close>
  "exit_only code =
     \<lparr>success = (code = Some 0),
      failures = [],
      summary = \<lparr>passed = 0,
                 failed = (if code \<noteq> None \<and> code \<noteq> Some 0 then 1 else 0),
                 skipped = 0,
                 total = (if code \<noteq> None \<and> code \<noteq> Some 0 then 1 else 0),
                 durationMs = 0\<rparr>,
      resultsFile = None\<rparr>"

definition on_close ::
  "'fs node_env \<Rightarrow> string \<Rightarrow> int option \<Rightarrow> 'fs io_state \<Rightarrow> TestRunResult \<times> 'fs io_state" where
  \<comment> \<open>the handler of the child's \<open>close\<close> event, with the value it resolves\<close>
  "on_close env resultsDir code io =
     (case findLatestTrx env resultsDir io of
        (None, io1) \<Rightarrow> (exit_only code, io1)
      | (Some trx, io1) \<Rightarrow>
          (case parseTrx env trx io1 of
             (Inr parsed, io2) \<Rightarrow>
               (parsed\<lparr>success := (length (failures parsed) = 0 \<and> (code = Some 0 \<or> code = None))\<rparr>,
                io2)
           | (Inl err, io2) \<Rightarrow>
               (exit_only code,
                output_appendLine (''Failed to parse TRX: '' @ err_message err) io2)))"

definition results_dir_of :: "'fs node_env \<Rightarrow> string \<Rightarrow> string \<Rightarrow> string" where
  "results_dir_of env command cwd =
     (case parseResultsDirectory command of
        Some dir \<Rightarrow> dir
      | None \<Rightarrow> path_join env cwd ''deepseek_test_results'')"

definition runTests ::
  "'fs node_env \<Rightarrow> string \<Rightarrow> string \<Rightarrow> 'fs io_state \<Rightarrow> TestRunResult \<times> 'fs io_state" where
  "runTests env command cwd io =
     (let resultsDir = results_dir_of env command cwd;
          io1 = ensureDirectory env resultsDir io
      in case spawn_command env command cwd io1 of
           (code, io2) \<Rightarrow> on_close env resultsDir code io2)"

subsection \<open>Example artifacts\<close>




definition spec_example_doc :: trx_json where
  \<comment> \<open>a passed record lasting 1.5 s and a failed record \<open>Foo.Bar\<close> with message \<open>boom\<close>\<close>
  "spec_example_doc =
     \<lparr>TestRun = Some \<lparr>Results = Some \<lparr>UnitTestResult = Some (Many
        [XElement \<lparr>attr_outcome = Some ''Passed'', attr_testName = Some ''Foo.Baz'',
                   attr_duration = Some ''00:00:01.500'', Output = None\<rparr>,
         XElement \<lparr>attr_outcome = Some ''Failed'', attr_testName = Some ''Foo.Bar'',
                   attr_duration = None,
                   Output = Some \<lparr>ErrorInfo = Some \<lparr>Message = Some ''boom'', StackTrace = None\<rparr>\<rparr>\<rparr>])\<rparr>\<rparr>\<rparr>"

subsection \<open>Example environments\<close>

definition ENOENT :: js_error where
  "ENOENT = \<lparr>err_name = ''Error'', err_message = ''ENOENT: no such file or directory''\<rparr>"

definition empty_dirs_env :: "int option \<Rightarrow> string list node_env" where
  \<comment> \<open>a file system holding only empty directories, listed by path; the command writes
      nothing and ends with the given exit code\<close>
  "empty_dirs_env code =
     \<lparr>mkdir = (\<lambda>dir fs. (None, if dir \<in> set fs then fs else fs @ [dir])),
      readdir = (\<lambda>dir fs. if dir \<in> set fs then Inr [] else Inl ENOENT),
      stat_mtimeMs = (\<lambda>p fs. Inl ENOENT),
      readFile = (\<lambda>p fs. Inl ENOENT),
      path_join = (\<lambda>a b. a @ ''/'' @ b),
      XMLParser_parse = (\<lambda>content. Inl (new_Error ''not XML'')),
      spawn = (\<lambda>command cwd fs. ([], code, fs))\<rparr>"

definition one_artifact_env :: "int option \<Rightarrow> (js_error + trx_json) \<Rightarrow> unit node_env" where
  \<comment> \<open>every directory holds the one file \<open>results.trx\<close>, which the parser decodes as given;
      the command prints one chunk and ends with the given exit code\<close>
  "one_artifact_env code decoded =
     \<lparr>mkdir = (\<lambda>dir fs. (None, fs)),
      readdir = (\<lambda>dir fs. Inr [''notes.txt'', ''results.trx'']),
      stat_mtimeMs = (\<lambda>p fs. Inr 1000),
      readFile = (\<lambda>p fs. Inr ''<TestRun/>''),
      path_join = (\<lambda>a b. a @ ''/'' @ b),
      XMLParser_parse = (\<lambda>content. decoded),
      spawn = (\<lambda>command cwd fs. ([''running''], code, fs))\<rparr>"

definition all_passed_doc :: trx_json where
  "all_passed_doc =
     \<lparr>TestRun = Some \<lparr>Results = Some \<lparr>UnitTestResult = Some (Single
        (XElement \<lparr>attr_outcome = Some ''Passed'', attr_testName = Some ''Foo.Baz'',
                    attr_duration = None, Output = None\<rparr>))\<rparr>\<rparr>\<rparr>"

section \<open>The LLM client\<close>

text \<open>
  The numbers of the options come unchecked from the settings
  (\<^verbatim>\<open>config.get<number>('maxConcurrentRequests', 2)\<close>): they are finite numbers, not
  necessarily whole or positive, modelled as reals.
\<close>

record LlmClientOptions =
  apiUrl :: string
  apiKey :: string
  model :: string
  timeoutMs :: real
  maxTokens :: real
  temperature :: real
  maxConcurrentRequests :: real

subsection \<open>The decoded response\<close>

record chat_message =
  message_content :: "string option"

record choice =
  choice_text :: "string option"
  choice_message :: "chat_message option"

record response_data =
  data_choices :: "choice list option"
  data_content :: "string option"
  data_result :: "string option"

record GenerateResult =
  content :: string
  raw :: response_data

definition nonempty :: "string option \<Rightarrow> string option" where
  \<comment> \<open>a string that is present and truthy\<close>
  "nonempty v = (case v of None \<Rightarrow> None | Some s \<Rightarrow> if s = [] then None else Some s)"

definition extractContent :: "response_data \<Rightarrow> string" where
  "extractContent data =
     (let from_choices =
            (case data_choices data of
               Some (first # _) \<Rightarrow>
                 (case nonempty (Option.bind (choice_message first) message_content) of
                    Some c \<Rightarrow> Some c
                  | None \<Rightarrow> nonempty (choice_text first))
             | _ \<Rightarrow> None)
      in case from_choices of
           Some c \<Rightarrow> c
         | None \<Rightarrow>
             (case (case data_content data of Some c \<Rightarrow> Some c | None \<Rightarrow> data_result data) of
                Some c \<Rightarrow> if length (trim c) > 0 then c else []
              | None \<Rightarrow> []))"

subsection \<open>The request and its environment\<close>

record payload =
  payload_model :: string
  payload_prompt :: string
  payload_max_tokens :: real
  payload_temperature :: real

record request =
  request_url :: string
  request_method :: string
  request_body :: payload
  request_content_type :: string
  request_authorization :: string

text \<open>
  Time is counted in milliseconds. What the network does is a parameter: for a request,
  \<open>fetch request net\<close> tells after how many milliseconds the promise of \<open>fetch\<close> would
  settle if nothing aborted it (\<open>After t (Inr response)\<close> when the headers arrive,
  \<open>After t (Inl err)\<close> when the request fails, \<open>Never\<close> when the server stays silent), with
  the state of the network afterwards. In the same way \<open>response_json\<close> tells how long
  after the headers the reading and decoding of the body would settle. Neither depends on
  the timeout: the race against the abort timer is run by \<open>call\<close> below.
\<close>

datatype 'a timed = After nat 'a | Never

record response =
  ok :: bool
  status :: nat
  statusText :: string
  response_json :: "(js_error + response_data) timed"

text \<open>
  What the client does to the outside is recorded in order: the requests it issues, the
  abort of a request by the timer, the lines it appends to the output channel and the
  delays it waits. The clock is the time at which the client has got so far.
\<close>

datatype event = EvFetch request | EvAbort | EvLog string | EvSleep nat

record 'net world =
  net :: 'net
  clock :: nat
  trace :: "event list"

type_synonym 'net fetch_fun = "request \<Rightarrow> 'net \<Rightarrow> (js_error + response) timed \<times> 'net"

definition is_fetch :: "event \<Rightarrow> bool" where
  "is_fetch ev = (case ev of EvFetch _ \<Rightarrow> True | _ \<Rightarrow> False)"

definition appendLine :: "string \<Rightarrow> 'net world \<Rightarrow> 'net world" where
  "appendLine line w = w\<lparr>trace := trace w @ [EvLog line]\<rparr>"

definition sleep :: "nat \<Rightarrow> 'net world \<Rightarrow> 'net world" where
  \<comment> \<open>\<^verbatim>\<open>await new Promise((resolve) => setTimeout(resolve, ms))\<close>\<close>
  "sleep ms w = w\<lparr>clock := clock w + ms, trace := trace w @ [EvSleep ms]\<rparr>"

definition elapse :: "nat \<Rightarrow> 'net world \<Rightarrow> 'net world" where
  "elapse ms w = w\<lparr>clock := clock w + ms\<rparr>"

definition timer_delay :: "real \<Rightarrow> nat" where
  \<comment> \<open>the delay of \<open>setTimeout\<close>: 1 when the argument is below 1 or above 2147483647,
      otherwise the argument truncated to a whole number\<close>
  "timer_delay ms = (if ms < 1 \<or> 2147483647 < ms then 1 else nat \<lfloor>ms\<rfloor>)"

definition abort_fires :: "nat \<Rightarrow> 'net world \<Rightarrow> 'net world" where
  \<comment> \<open>the callback of the timer, \<^verbatim>\<open>() => controller.abort()\<close>, runs \<open>left\<close> ms from now\<close>
  "abort_fires left w = w\<lparr>clock := clock w + left, trace := trace w @ [EvAbort]\<rparr>"

definition await_until :: "nat \<Rightarrow> 'a timed \<Rightarrow> (nat \<times> 'a) option" where
  \<comment> \<open>\<open>await\<close> of a promise that carries the abort signal, with the timer due in \<open>left\<close> ms:
      the time and value with which the promise settles, or \<open>None\<close> when the timer fires
      first\<close>
  "await_until left p = (case p of Never \<Rightarrow> None | After t v \<Rightarrow> if t < left then Some (t, v) else None)"

definition AbortError :: js_error where
  \<comment> \<open>what \<open>fetch\<close>, or the reading of the body, rejects with when the signal aborts\<close>
  "AbortError = \<lparr>err_name = ''AbortError'', err_message = ''The user aborted a request.''\<rparr>"

definition digit_char :: "nat \<Rightarrow> char" where
  "digit_char n = ''0123456789'' ! n"

fun show_nat :: "nat \<Rightarrow> string" where
  "show_nat n = (if n < 10 then [digit_char n] else show_nat (n div 10) @ [digit_char (n mod 10)])"

declare show_nat.simps [simp del]

subsection \<open>call\<close>

definition ensureSuccess :: "response \<Rightarrow> js_error + unit" where
  "ensureSuccess response =
     (if \<not> ok response
      then Inl (new_Error (''LLM request failed: '' @ show_nat (status response) @ '' ''
                            @ statusText response))
      else Inr ())"

definition call_catch :: "js_error \<Rightarrow> js_error" where
  \<comment> \<open>the \<open>catch\<close> clause of \<open>call\<close>: the error that leaves the function\<close>
  "call_catch err =
     (if err_name err = ''AbortError'' then new_Error ''LLM request timed out'' else err)"

definition build_request :: "LlmClientOptions \<Rightarrow> string \<Rightarrow> request" where
  "build_request options prompt =
     \<lparr>request_url = apiUrl options,
      request_method = ''POST'',
      request_body = \<lparr>payload_model = model options, payload_prompt = prompt,
                       payload_max_tokens = maxTokens options,
                       payload_temperature = temperature options\<rparr>,
      request_content_type = ''application/json'',
      request_authorization = ''Bearer '' @ apiKey options\<rparr>"

definition call ::
  "'net fetch_fun \<Rightarrow> LlmClientOptions \<Rightarrow> string \<Rightarrow> 'net world
     \<Rightarrow> (js_error + GenerateResult) \<times> 'net world" where
  \<comment> \<open>the timer is armed for \<open>timeoutMs\<close>; every error goes through the \<open>catch\<close> clause; on
      the paths that settle before the timer, \<open>finally\<close> clears it\<close>
  "call fetch options prompt w =
     (let req = build_request options prompt;
          due = timer_delay (timeoutMs options)
      in case fetch req (net w) of
        (arrival, net') \<Rightarrow>
          (let w1 = w\<lparr>net := net', trace := trace w @ [EvFetch req]\<rparr> in
           case await_until due arrival of
             None \<Rightarrow> (Inl (call_catch AbortError), abort_fires due w1)
           | Some (t, Inl err) \<Rightarrow> (Inl (call_catch err), elapse t w1)
           | Some (t, Inr response) \<Rightarrow>
               (case ensureSuccess response of
                  Inl err \<Rightarrow> (Inl (call_catch err), elapse t w1)
                | Inr _ \<Rightarrow>
                    (case await_until (due - t) (response_json response) of
                       None \<Rightarrow> (Inl (call_catch AbortError), abort_fires (due - t) (elapse t w1))
                     | Some (b, Inl err) \<Rightarrow> (Inl (call_catch err), elapse (t + b) w1)
                     | Some (b, Inr data) \<Rightarrow>
                         (Inr \<lparr>content = extractContent data, raw = data\<rparr>,
                          elapse (t + b) w1)))))"

subsection \<open>callWithRetry\<close>

definition attempt_failed_line :: "nat \<Rightarrow> js_error \<Rightarrow> string" where
  "attempt_failed_line attempt err =
     ''[DeepSeek] Attempt '' @ show_nat attempt @ '' failed: '' @ err_message err"

definition attempts :: nat where
  "attempts = 3"

function retry_from ::
  "'net fetch_fun \<Rightarrow> LlmClientOptions \<Rightarrow> string \<Rightarrow> nat \<Rightarrow> 'net world
     \<Rightarrow> (js_error + GenerateResult) \<times> 'net world" where
  "retry_from fetch options prompt attempt w =
     (if attempt \<le> attempts then
        (case call fetch options prompt w of
           (Inr result, w1) \<Rightarrow> (Inr result, w1)
         | (Inl err, w1) \<Rightarrow>
             (let w2 = appendLine (attempt_failed_line attempt err) w1
              in if attempt = attempts then (Inl err, w2)
                 else retry_from fetch options prompt (attempt + 1)
                        (sleep (500 * 2 ^ (attempt - 1)) w2)))
      else (Inl (new_Error ''Unexpected retry failure''), w))"
  by pat_completeness auto
termination
  by (relation "measure (\<lambda>(fetch, options, prompt, attempt, w). Suc attempts - attempt)") auto

declare retry_from.simps [simp del]

definition callWithRetry ::
  "'net fetch_fun \<Rightarrow> LlmClientOptions \<Rightarrow> string \<Rightarrow> 'net world
     \<Rightarrow> (js_error + GenerateResult) \<times> 'net world" where
  "callWithRetry fetch options prompt w = retry_from fetch options prompt 1 w"

subsection \<open>Semaphore\<close>

text \<open>
  The queue holds the \<open>resolve\<close> callbacks of the suspended callers; a callback is
  identified with its caller, of type \<open>'w\<close>. \<open>acquire\<close> returns whether the caller goes on
  at once; \<open>release\<close> returns the caller it resumes, if any. The counter is a number:
  it starts from the configured ceiling, which need not be whole.
\<close>

record 'w Semaphore =
  queue :: "'w list"
  counter :: real

definition new_Semaphore :: "real \<Rightarrow> 'w Semaphore" where
  \<comment> \<open>\<^verbatim>\<open>this.counter = Math.max(1, count)\<close>\<close>
  "new_Semaphore count = \<lparr>queue = [], counter = max 1 count\<rparr>"

definition acquire :: "'w \<Rightarrow> 'w Semaphore \<Rightarrow> bool \<times> 'w Semaphore" where
  "acquire caller sem =
     (if counter sem > 0 then (True, sem\<lparr>counter := counter sem - 1\<rparr>)
      else (False, sem\<lparr>queue := queue sem @ [caller]\<rparr>))"

definition release :: "'w Semaphore \<Rightarrow> 'w option \<times> 'w Semaphore" where
  "release sem =
     (let sem1 = sem\<lparr>counter := counter sem + 1\<rparr> in
      case queue sem1 of
        [] \<Rightarrow> (None, sem1)
      | next # rest \<Rightarrow> (Some next, sem1\<lparr>queue := rest, counter := counter sem1 - 1\<rparr>))"

definition client_semaphore :: "LlmClientOptions \<Rightarrow> 'w Semaphore" where
  \<comment> \<open>the constructor of \<open>LlmClient\<close>: \<^verbatim>\<open>new Semaphore(options.maxConcurrentRequests || 1)\<close>\<close>
  "client_semaphore options =
     new_Semaphore (if maxConcurrentRequests options = 0 then 1 else maxConcurrentRequests options)"

subsection \<open>generate\<close>

text \<open>
  One call of \<open>generate\<close>, seen from its caller: it returns, throws, or is suspended in
  \<open>acquire\<close> until a \<open>release\<close> hands it a slot and \<open>generate_admitted\<close> runs. The result
  carries the caller that the final \<open>release\<close> resumes.
\<close>

datatype 'a completion = Returned 'a | Threw js_error | Suspended

definition completion_of :: "js_error + 'a \<Rightarrow> 'a completion" where
  "completion_of r = (case r of Inl err \<Rightarrow> Threw err | Inr v \<Rightarrow> Returned v)"

definition generate_admitted ::
  "'net fetch_fun \<Rightarrow> LlmClientOptions \<Rightarrow> string \<Rightarrow> 'w Semaphore \<Rightarrow> 'net world
     \<Rightarrow> GenerateResult completion \<times> 'w option \<times> 'w Semaphore \<times> 'net world" where
  \<comment> \<open>the \<open>try\<close> block with its \<open>finally\<close>\<close>
  "generate_admitted fetch options prompt sem w =
     (case callWithRetry fetch options prompt w of
        (r, w') \<Rightarrow> (case release sem of (resumed, sem') \<Rightarrow> (completion_of r, resumed, sem', w')))"

definition generate ::
  "'w \<Rightarrow> 'net fetch_fun \<Rightarrow> LlmClientOptions \<Rightarrow> string \<Rightarrow> 'w Semaphore \<Rightarrow> 'net world
     \<Rightarrow> GenerateResult completion \<times> 'w option \<times> 'w Semaphore \<times> 'net world" where
  "generate caller fetch options prompt sem w =
     (if apiUrl options = [] then
        (Threw (new_Error ''API URL is not configured (deepseekCSharp.assistant.apiUrl).''),
         None, sem, w)
      else if apiKey options = [] then
        (Threw (new_Error ''API key is not configured (deepseekCSharp.assistant.apiKey).''),
         None, sem, w)
      else (case acquire caller sem of
              (True, sem1) \<Rightarrow> generate_admitted fetch options prompt sem1 w
            | (False, sem1) \<Rightarrow> (Suspended, None, sem1, w)))"

subsection \<open>Concurrent calls at the gate\<close>

text \<open>
  Several calls of \<open>generate\<close> on one client, with valid configuration: \<open>Call c\<close> is caller
  \<open>c\<close> reaching \<open>acquire\<close>; \<open>Finish c\<close> is the \<open>finally\<close> block of a caller that holds a
  slot. Besides the semaphore the state records the callers holding a slot (\<open>active\<close>,
  from the moment \<open>acquire\<close> lets them through or \<open>release\<close> hands them the slot), the
  callers in the order they reached \<open>acquire\<close> (\<open>arrived\<close>) and in the order they were
  let through (\<open>admitted\<close>). A \<open>Finish\<close> of a caller that holds no slot does not occur in
  \<open>generate\<close>, and has no successor state.
\<close>

datatype 'w gate_event = Call 'w | Finish 'w

record 'w gate_state =
  gate_sem :: "'w Semaphore"
  active :: "'w list"
  arrived :: "'w list"
  admitted :: "'w list"

definition gate_init :: "LlmClientOptions \<Rightarrow> 'w gate_state" where
  "gate_init options = \<lparr>gate_sem = client_semaphore options, active = [], arrived = [], admitted = []\<rparr>"

fun gate_step :: "'w gate_event \<Rightarrow> 'w gate_state \<Rightarrow> 'w gate_state option" where
  "gate_step (Call c) s =
     (case acquire c (gate_sem s) of
        (True, sem') \<Rightarrow>
          Some (s\<lparr>gate_sem := sem', active := active s @ [c], arrived := arrived s @ [c],
                  admitted := admitted s @ [c]\<rparr>)
      | (False, sem') \<Rightarrow> Some (s\<lparr>gate_sem := sem', arrived := arrived s @ [c]\<rparr>))"
| "gate_step (Finish c) s =
     (if c \<in> set (active s) then
        (case release (gate_sem s) of
           (None, sem') \<Rightarrow> Some (s\<lparr>gate_sem := sem', active := remove1 c (active s)\<rparr>)
         | (Some next, sem') \<Rightarrow>
             Some (s\<lparr>gate_sem := sem', active := remove1 c (active s) @ [next],
                     admitted := admitted s @ [next]\<rparr>))
      else None)"

fun gate_run :: "'w gate_event list \<Rightarrow> 'w gate_state \<Rightarrow> 'w gate_state option" where
  "gate_run [] s = Some s"
| "gate_run (ev # evs) s = (case gate_step ev s of None \<Rightarrow> None | Some s' \<Rightarrow> gate_run evs s')"

definition gate_inv :: "real \<Rightarrow> 'w gate_state \<Rightarrow> bool" where
  \<comment> \<open>the invariant of the gate whose counter started from \<open>m\<close>\<close>
  "gate_inv m s =
     (- 1 < counter (gate_sem s)
      \<and> counter (gate_sem s) + real (length (active s)) = m
      \<and> (queue (gate_sem s) = [] \<or> counter (gate_sem s) \<le> 0)
      \<and> arrived s = admitted s @ queue (gate_sem s))"

subsection \<open>Example networks\<close>

definition FetchError :: js_error where
  "FetchError = \<lparr>err_name = ''FetchError'', err_message = ''network unreachable''\<rparr>"

definition scripted_fetch :: "(js_error + response) timed list fetch_fun" where
  \<comment> \<open>the network answers the requests as listed, in order; after that it is unreachable\<close>
  "scripted_fetch req answers =
     (case answers of
        [] \<Rightarrow> (After 0 (Inl FetchError), [])
      | answer # rest \<Rightarrow> (answer, rest))"

definition server_error :: response where
  "server_error =
     \<lparr>ok = False, status = 503, statusText = ''Service Unavailable'',
      response_json = After 5 (Inr \<lparr>data_choices = None, data_content = None, data_result = None\<rparr>)\<rparr>"

definition hello_data :: response_data where
  "hello_data =
     \<lparr>data_choices = Some [\<lparr>choice_text = None,
                             choice_message = Some \<lparr>message_content = Some ''hello''\<rparr>\<rparr>],
      data_content = None, data_result = None\<rparr>"

definition hello_response :: response where
  "hello_response =
     \<lparr>ok = True, status = 200, statusText = ''OK'', response_json = After 20 (Inr hello_data)\<rparr>"

definition example_options :: LlmClientOptions where
  "example_options =
     \<lparr>apiUrl = ''https://api.example/v1'', apiKey = ''k'', model = ''deepseek-chat'',
      timeoutMs = 30000, maxTokens = 1024, temperature = 0, maxConcurrentRequests = 2\<rparr>"

definition two_failures_then_success :: "(js_error + response) timed list world" where
  \<comment> \<open>the first request is never answered, the second is answered 503 after 120 ms, the
      third succeeds: headers after 80 ms, body 20 ms later\<close>
  "two_failures_then_success =
     \<lparr>net = [Never, After 120 (Inr server_error), After 80 (Inr hello_response)],
      clock = 0, trace = []\<rparr>"

definition slow_body :: response where
  \<comment> \<open>the headers of a 200 response; the body would take 40 s\<close>
  "slow_body =
     \<lparr>ok = True, status = 200, statusText = ''OK'', response_json = After 40000 (Inr hello_data)\<rparr>"

definition silent_server :: "(js_error + response) timed list world" where
  "silent_server = \<lparr>net = [Never], clock = 0, trace = []\<rparr>"

definition slow_body_server :: "(js_error + response) timed list world" where
  \<comment> \<open>the headers arrive after 100 ms\<close>
  "slow_body_server = \<lparr>net = [After 100 (Inr slow_body)], clock = 0, trace = []\<rparr>"

definition unreachable_network :: "(js_error + response) timed list world" where
  "unreachable_network = \<lparr>net = [], clock = 0, trace = []\<rparr>"

definition timed_out :: js_error where
  "timed_out = \<lparr>err_name = ''Error'', err_message = ''LLM request timed out''\<rparr>"

definition idle_gate :: "nat Semaphore" where
  "idle_gate = \<lparr>queue = [], counter = 2\<rparr>"

definition busy_gate :: "nat Semaphore" where
  "busy_gate = \<lparr>queue = [7], counter = 0\<rparr>"

definition unclamped_options :: LlmClientOptions where
  "unclamped_options = example_options\<lparr>maxConcurrentRequests := - 5\<rparr>"

definition fractional_options :: LlmClientOptions where
  "fractional_options = example_options\<lparr>maxConcurrentRequests := 5 / 2\<rparr>"

definition four_callers_state :: "nat gate_state" where
  \<comment> \<open>two slots; callers 1 to 4 arrive, then caller 2 finishes: 3 takes its slot, 4 still waits\<close>
  "four_callers_state =
     \<lparr>gate_sem = \<lparr>queue = [4], counter = 0\<rparr>, active = [1, 3],
      arrived = [1, 2, 3, 4], admitted = [1, 2, 3]\<rparr>"

definition clamped_state :: "nat gate_state" where
  \<comment> \<open>a configured ceiling of -5: one slot; callers 1 to 3 arrive, then caller 1 finishes\<close>
  "clamped_state =
     \<lparr>gate_sem = \<lparr>queue = [3], counter = 0\<rparr>, active = [2],
      arrived = [1, 2, 3], admitted = [1, 2]\<rparr>"

definition three_admitted_state :: "nat gate_state" where
  \<comment> \<open>a configured ceiling of 2.5; callers 1 to 3 arrive and all go through\<close>
  "three_admitted_state =
     \<lparr>gate_sem = \<lparr>queue = [], counter = - (1 / 2)\<rparr>, active = [1, 2, 3],
      arrived = [1, 2, 3], admitted = [1, 2, 3]\<rparr>"

definition fractional_full_state :: "nat gate_state" where
  \<comment> \<open>a configured ceiling of 2.5; callers 1 to 4 arrive, then caller 2 finishes\<close>
  "fractional_full_state =
     \<lparr>gate_sem = \<lparr>queue = [], counter = - (1 / 2)\<rparr>, active = [1, 3, 4],
      arrived = [1, 2, 3, 4], admitted = [1, 2, 3, 4]\<rparr>"

section \<open>Properties of the test runner\<close>

subsection \<open>Outcome classification\<close>








lemma element_not_dropped:
  "utr_slot json = Some (Single (XElement r)) \<Longrightarrow> \<not> lone_falsy json"
  "utr_slot json = Some (Many xs) \<Longrightarrow> \<not> lone_falsy json"
  "utr_slot json = None \<Longrightarrow> \<not> lone_falsy json"
  by (simp_all add: lone_falsy_def falsy_def)

lemma lone_falsy_iff:
  "lone_falsy json \<longleftrightarrow>
     utr_slot json = Some (Single (XText [])) \<or> utr_slot json = Some (Single (XNumber 0))
     \<or> utr_slot json = Some (Single (XBool False))"
  by (auto simp: lone_falsy_def falsy_def split: option.splits utr_value.splits xml_value.splits)








subsection \<open>Regular expression matching\<close>

lemma re_match_Lit_iff:
  "(s', c') \<in> set (re_match (Lit l) s c) \<longleftrightarrow> c' = c \<and> s = l @ s'"
proof -
  have "take (length l) s = l \<and> s' = drop (length l) s \<longleftrightarrow> s = l @ s'"
    by (metis append_eq_conv_conj)
  then show ?thesis by auto
qed

lemma re_match_One_iff:
  "(s', c') \<in> set (re_match (One P) s c) \<longleftrightarrow> c' = c \<and> (\<exists>x. P x \<and> s = x # s')"
  by (cases s) auto

lemma set_re_match_Plus:
  "set (re_match (Plus P) s c) = (\<lambda>k. (drop k s, c)) ` {1 .. length (takeWhile P s)}"
proof -
  have "set (rev [1 ..< Suc (length (takeWhile P s))]) = {1 .. length (takeWhile P s)}"
    by (simp only: set_rev set_upt atLeastLessThanSuc_atLeastAtMost)
  then show ?thesis
    by (simp only: re_match.simps set_map)
qed

lemma re_match_Plus_iff:
  "(s', c') \<in> set (re_match (Plus P) s c) \<longleftrightarrow>
     c' = c \<and> (\<exists>xs. xs \<noteq> [] \<and> (\<forall>x \<in> set xs. P x) \<and> s = xs @ s')"
proof
  assume "(s', c') \<in> set (re_match (Plus P) s c)"
  then obtain k where k: "1 \<le> k" "k \<le> length (takeWhile P s)" and s': "s' = drop k s" and c': "c' = c"
    unfolding set_re_match_Plus by auto
  have le: "k \<le> length s"
    using k(2) length_takeWhile_le [of P s] by linarith
  have "take k s = take k (takeWhile P s)"
    using k(2) by (metis takeWhile_eq_take take_take min.absorb1)
  then have "\<forall>x \<in> set (take k s). P x"
    by (metis in_set_takeD set_takeWhileD)
  moreover have "take k s \<noteq> []"
    using k(1) le by (cases s) auto
  moreover have "s = take k s @ s'"
    by (simp add: s')
  ultimately show "c' = c \<and> (\<exists>xs. xs \<noteq> [] \<and> (\<forall>x \<in> set xs. P x) \<and> s = xs @ s')"
    using c' by blast
next
  assume "c' = c \<and> (\<exists>xs. xs \<noteq> [] \<and> (\<forall>x \<in> set xs. P x) \<and> s = xs @ s')"
  then obtain xs where c': "c' = c" and xs: "xs \<noteq> []" "\<forall>x \<in> set xs. P x" "s = xs @ s'"
    by blast
  have "length xs \<le> length (takeWhile P s)"
    using xs(2,3) by simp
  moreover have "1 \<le> length xs"
    using xs(1) by (cases xs) auto
  moreover have "s' = drop (length xs) s"
    using xs(3) by simp
  ultimately have "(s', c) \<in> (\<lambda>k. (drop k s, c)) ` {1 .. length (takeWhile P s)}"
    by (intro image_eqI [where x = "length xs"]) auto
  then show "(s', c') \<in> set (re_match (Plus P) s c)"
    unfolding set_re_match_Plus using c' by simp
qed

lemma re_match_Seq_iff:
  "(s'', c'') \<in> set (re_match (Seq a b) s c) \<longleftrightarrow>
     (\<exists>s' c'. (s', c') \<in> set (re_match a s c) \<and> (s'', c'') \<in> set (re_match b s' c'))"
  by auto

lemma re_match_Alt_iff:
  "(s', c') \<in> set (re_match (Alt a b) s c) \<longleftrightarrow>
     (s', c') \<in> set (re_match a s c) \<or> (s', c') \<in> set (re_match b s c)"
  by simp

lemma re_match_Opt_iff:
  "(s', c') \<in> set (re_match (Opt a) s c) \<longleftrightarrow>
     (s', c') \<in> set (re_match a s c) \<or> (s' = s \<and> c' = c)"
  by auto

lemma re_match_Grp_iff:
  "(s', c') \<in> set (re_match (Grp g a) s c) \<longleftrightarrow>
     (\<exists>c0. (s', c0) \<in> set (re_match a s c) \<and> c' = c0(g \<mapsto> take (length s - length s') s))"
  by auto

lemmas re_match_iffs = re_match_Lit_iff re_match_One_iff re_match_Plus_iff re_match_Seq_iff
  re_match_Alt_iff re_match_Opt_iff re_match_Grp_iff

lemma re_search_SomeD:
  "re_search r s = Some caps \<Longrightarrow> \<exists>s0 rest. (rest, caps) \<in> set (re_match r s0 Map.empty)"
proof (induction s)
  case Nil
  then have "\<exists>rest. (rest, caps) \<in> set (re_match r [] Map.empty)"
    by (cases "re_match r [] Map.empty") auto
  then show ?case by blast
next
  case (Cons x t)
  show ?case
  proof (cases "re_match r (x # t) Map.empty")
    case Nil
    with Cons.prems have "re_search r t = Some caps" by simp
    with Cons.IH show ?thesis by blast
  next
    case (Cons p ps)
    with Cons.prems have "p = (fst p, caps)"
      by (cases p) auto
    with Cons have "(fst p, caps) \<in> set (re_match r (x # t) Map.empty)"
      by (metis list.set_intros(1))
    then show ?thesis by blast
  qed
qed

subsection \<open>Durations\<close>

lemma backslash_ds_group:
  assumes "(s', c') \<in> set (re_match (Grp g backslash_ds) s c)"
  shows "\<exists>t. c' = c(g \<mapsto> backslash # t)"
proof -
  from assms obtain c0 where c0: "(s', c0) \<in> set (re_match backslash_ds s c)"
    and c': "c' = c0(g \<mapsto> take (length s - length s') s)"
    unfolding re_match_Grp_iff by blast
  from c0 obtain s1 c1 where l: "(s1, c1) \<in> set (re_match (Lit [backslash]) s c)"
    and p: "(s', c0) \<in> set (re_match (Plus (\<lambda>c. c = CHR ''d'')) s1 c1)"
    unfolding backslash_ds_def re_match_Seq_iff by blast
  from l have s: "s = backslash # s1" and c1: "c1 = c"
    unfolding re_match_Lit_iff by simp_all
  from p obtain xs where s1: "s1 = xs @ s'" and "c0 = c1"
    unfolding re_match_Plus_iff by blast
  then have "take (length s - length s') s = backslash # xs" "c0 = c"
    using s c1 by simp_all
  with c' show ?thesis by auto
qed

lemma duration_groups_backslash:
  assumes "re_search duration_re s = Some groups"
  shows "(\<exists>t. groups ''h'' = Some (backslash # t)) \<and> (\<exists>t. groups ''m'' = Some (backslash # t))
       \<and> (\<exists>t. groups ''s'' = Some (backslash # t))
       \<and> (groups ''ms'' = None \<or> (\<exists>t. groups ''ms'' = Some (backslash # t)))"
proof -
  from re_search_SomeD [OF assms] obtain s0 rest
    where "(rest, groups) \<in> set (re_match duration_re s0 Map.empty)" by blast
  then obtain s1 c1 where
    h: "(s1, c1) \<in> set (re_match (Grp ''h'' backslash_ds) s0 Map.empty)" and
    r1: "(rest, groups) \<in> set (re_match (Seq (Lit '':'')
          (Seq (Grp ''m'' backslash_ds)
             (Seq (Lit '':'')
                (Seq (Grp ''s'' backslash_ds)
                   (Opt (Seq (Lit [backslash])
                           (Seq (One (\<lambda>c. \<not> is_line_terminator c))
                              (Grp ''ms'' backslash_ds)))))))) s1 c1)"
    unfolding duration_re_def re_match_Seq_iff [of _ _ "Grp ''h'' backslash_ds"] by blast
  from r1 obtain s2 c2 where "(s2, c2) \<in> set (re_match (Lit '':'') s1 c1)" and
    r2: "(rest, groups) \<in> set (re_match
          (Seq (Grp ''m'' backslash_ds)
             (Seq (Lit '':'')
                (Seq (Grp ''s'' backslash_ds)
                   (Opt (Seq (Lit [backslash])
                           (Seq (One (\<lambda>c. \<not> is_line_terminator c))
                              (Grp ''ms'' backslash_ds))))))) s2 c2)"
    unfolding re_match_Seq_iff [of _ _ "Lit '':''"] by blast
  then have c2: "c2 = c1" unfolding re_match_Lit_iff by simp
  from r2 obtain s3 c3 where
    m: "(s3, c3) \<in> set (re_match (Grp ''m'' backslash_ds) s2 c2)" and
    r3: "(rest, groups) \<in> set (re_match
             (Seq (Lit '':'')
                (Seq (Grp ''s'' backslash_ds)
                   (Opt (Seq (Lit [backslash])
                           (Seq (One (\<lambda>c. \<not> is_line_terminator c))
                              (Grp ''ms'' backslash_ds)))))) s3 c3)"
    unfolding re_match_Seq_iff [of _ _ "Grp ''m'' backslash_ds"] by blast
  from r3 obtain s4 c4 where "(s4, c4) \<in> set (re_match (Lit '':'') s3 c3)" and
    r4: "(rest, groups) \<in> set (re_match
                (Seq (Grp ''s'' backslash_ds)
                   (Opt (Seq (Lit [backslash])
                           (Seq (One (\<lambda>c. \<not> is_line_terminator c))
                              (Grp ''ms'' backslash_ds))))) s4 c4)"
    unfolding re_match_Seq_iff [of _ _ "Lit '':''"] by blast
  then have c4: "c4 = c3" unfolding re_match_Lit_iff by simp
  from r4 obtain s5 c5 where
    s: "(s5, c5) \<in> set (re_match (Grp ''s'' backslash_ds) s4 c4)" and
    r5: "(rest, groups) \<in> set (re_match
                   (Opt (Seq (Lit [backslash])
                           (Seq (One (\<lambda>c. \<not> is_line_terminator c))
                              (Grp ''ms'' backslash_ds)))) s5 c5)"
    unfolding re_match_Seq_iff [of _ _ "Grp ''s'' backslash_ds"] by blast
  from backslash_ds_group [OF h] obtain t1 where c1: "c1 = Map.empty(''h'' \<mapsto> backslash # t1)" by blast
  from backslash_ds_group [OF m] obtain t2 where c3: "c3 = c1(''m'' \<mapsto> backslash # t2)"
    using c2 by blast
  from backslash_ds_group [OF s] obtain t3 where c5: "c5 = c3(''s'' \<mapsto> backslash # t3)"
    using c4 by blast
  from r5 consider (absent) "groups = c5"
    | (present) "(rest, groups) \<in> set (re_match (Seq (Lit [backslash])
                           (Seq (One (\<lambda>c. \<not> is_line_terminator c))
                              (Grp ''ms'' backslash_ds))) s5 c5)"
    unfolding re_match_Opt_iff by blast
  then show ?thesis
  proof cases
    case absent
    then show ?thesis by (simp add: c1 c3 c5)
  next
    case present
    then obtain s6 c6 where "(s6, c6) \<in> set (re_match (Lit [backslash]) s5 c5)" and
      r6: "(rest, groups) \<in> set (re_match (Seq (One (\<lambda>c. \<not> is_line_terminator c))
                              (Grp ''ms'' backslash_ds)) s6 c6)"
      unfolding re_match_Seq_iff [of _ _ "Lit [backslash]"] by blast
    then have c6: "c6 = c5" unfolding re_match_Lit_iff by simp
    from r6 obtain s7 c7 where "(s7, c7) \<in> set (re_match (One (\<lambda>c. \<not> is_line_terminator c)) s6 c6)"
      and ms: "(rest, groups) \<in> set (re_match (Grp ''ms'' backslash_ds) s7 c7)"
      unfolding re_match_Seq_iff [of _ _ "One (\<lambda>c. \<not> is_line_terminator c)"] by blast
    then have c7: "c7 = c6" unfolding re_match_One_iff by simp
    from backslash_ds_group [OF ms] obtain t4 where "groups = c5(''ms'' \<mapsto> backslash # t4)"
      using c6 c7 by blast
    then show ?thesis by (simp add: c1 c3 c5)
  qed
qed

lemma in_set_dropWhile: "x \<in> set xs \<Longrightarrow> \<not> P x \<Longrightarrow> x \<in> set (dropWhile P xs)"
  by (induction xs) auto

lemma in_set_trim: "x \<in> set s \<Longrightarrow> \<not> is_space x \<Longrightarrow> x \<in> set (trim s)"
  by (simp add: trim_def in_set_dropWhile)

lemma js_Number_backslash: "js_Number (backslash # t) = NaN"
proof -
  have b: "backslash \<in> set (trim (backslash # t))"
    by (rule in_set_trim) (simp_all add: is_space_def backslash_def)
  then have "trim (backslash # t) \<noteq> []" by auto
  moreover have "\<not> is_digit backslash"
    by (simp add: is_digit_def backslash_def)
  then have "\<not> list_all is_digit (trim (backslash # t))"
    using b unfolding list_all_iff by blast
  ultimately show ?thesis by (simp add: js_Number_def Let_def)
qed

lemma parseDuration_falsy: "\<not> truthy (parseDuration s)"
proof (cases "re_search duration_re s")
  case None
  then show ?thesis by (simp add: parseDuration_def)
next
  case (Some groups)
  from duration_groups_backslash [OF Some] obtain t where "groups ''h'' = Some (backslash # t)"
    by blast
  then have "Number_opt (groups ''h'') = NaN"
    by (simp add: Number_opt_def js_Number_backslash)
  then have "parseDuration s = NaN"
    using Some by (simp add: parseDuration_def Let_def)
  then show ?thesis by simp
qed

lemma trx_loop_duration: "snd (snd (snd (trx_loop rs fls p s d))) = d"
  by (induction rs arbitrary: fls p s d) (simp_all add: Let_def parseDuration_falsy)

lemma parseTrx_json_durationMs: "durationMs (summary (parseTrx_json json p)) = 0"
proof -
  obtain fls ps sk d where loop: "trx_loop (trx_records json) [] 0 0 0 = (fls, ps, sk, d)"
    by (cases "trx_loop (trx_records json) [] 0 0 0") auto
  with trx_loop_duration [of "trx_records json" "[]" 0 0 0] have "d = 0" by simp
  with loop show ?thesis by (simp add: parseTrx_json_def)
qed

text \<open>
  Claim C3 (fails on the code). The duration pattern is written with doubled backslashes,
  so it matches a backslash followed by letters \<open>d\<close>, not digits: \<open>00:00:01.500\<close> does
  not match and \<open>parseDuration\<close> returns 0 for it. For the two-record example of the
  specification the summary has \<open>durationMs = 0\<close>, where 1500 is expected.
\<close>

theorem duration_not_converted:
  "parseDuration ''00:00:01.500'' = Fin 0
   \<and> summary (parseTrx_json spec_example_doc ''results.trx'') =
       \<lparr>passed = 1, failed = 1, skipped = 0, total = 2, durationMs = 0\<rparr>
   \<and> failures (parseTrx_json spec_example_doc ''results.trx'') =
       [\<lparr>testName = ''Foo.Bar'', message = Some ''boom'', stackTrace = None\<rparr>]"
proof -
  have d: "parseDuration ''00:00:01.500'' = Fin 0"
    by (simp add: parseDuration_def duration_re_def backslash_ds_def backslash_def)
  have recs: "trx_records spec_example_doc =
        [XElement \<lparr>attr_outcome = Some ''Passed'', attr_testName = Some ''Foo.Baz'',
                   attr_duration = Some ''00:00:01.500'', Output = None\<rparr>,
         XElement \<lparr>attr_outcome = Some ''Failed'', attr_testName = Some ''Foo.Bar'',
                   attr_duration = None,
                   Output = Some \<lparr>ErrorInfo = Some \<lparr>Message = Some ''boom'', StackTrace = None\<rparr>\<rparr>\<rparr>]"
    by (simp add: spec_example_doc_def trx_records_def utr_slot_def toArray_def)
  have low: "toLowerCase ''Passed'' = ''passed''" "toLowerCase ''Failed'' = ''failed''"
    by code_simp+
  have "parseTrx_json spec_example_doc ''results.trx'' =
      \<lparr>success = False,
       failures = [\<lparr>testName = ''Foo.Bar'', message = Some ''boom'', stackTrace = None\<rparr>],
       summary = \<lparr>passed = 1, failed = 1, skipped = 0, total = 2, durationMs = 0\<rparr>,
       resultsFile = Some ''results.trx''\<rparr>"
    by (simp add: parseTrx_json_def recs as_record_def outcome_of_def String_or_def low
        failure_of_def parseDuration_falsy)
  with d show ?thesis by simp
qed

subsection \<open>Reconciling the artifact with the exit code\<close>

lemma on_close_parsed:
  assumes "fst (findLatestTrx env dir io) = Some trx"
    and "fst (parseTrx env trx (snd (findLatestTrx env dir io))) = Inr parsed"
  shows "success (fst (on_close env dir code io)) \<longleftrightarrow>
           failures (fst (on_close env dir code io)) = [] \<and> (code = Some 0 \<or> code = None)"
  using assms
  by (cases "findLatestTrx env dir io"; cases "parseTrx env trx (snd (findLatestTrx env dir io))")
     (simp add: on_close_def)

lemma on_close_exit_only:
  assumes "fst (findLatestTrx env dir io) = None
           \<or> (\<exists>trx e. fst (findLatestTrx env dir io) = Some trx
                \<and> fst (parseTrx env trx (snd (findLatestTrx env dir io))) = Inl e)"
  shows "fst (on_close env dir code io) = exit_only code"
proof (cases "findLatestTrx env dir io")
  case (Pair found io1)
  show ?thesis
  proof (cases found)
    case None
    with Pair show ?thesis by (simp add: on_close_def)
  next
    case (Some trx)
    with Pair assms obtain e where "fst (parseTrx env trx io1) = Inl e" by auto
    with Pair Some show ?thesis
      by (cases "parseTrx env trx io1") (simp add: on_close_def)
  qed
qed

lemma empty_dirs_env_simps:
  "mkdir (empty_dirs_env code) dir fs = (None, if dir \<in> set fs then fs else fs @ [dir])"
  "spawn (empty_dirs_env code) command cwd fs = ([], code, fs)"
  "path_join (empty_dirs_env code) a b = a @ ''/'' @ b"
  by (simp_all add: empty_dirs_env_def)

lemma one_artifact_env_simps:
  "mkdir (one_artifact_env code decoded) dir fs = (None, fs)"
  "spawn (one_artifact_env code decoded) command cwd fs = ([''running''], code, fs)"
  "path_join (one_artifact_env code decoded) a b = a @ ''/'' @ b"
  by (simp_all add: one_artifact_env_def)

lemma no_results_directory_argument: "parseResultsDirectory ''dotnet test'' = None"
  by (simp add: parseResultsDirectory_def results_directory_re_def)

lemma default_dir:
  "results_dir_of (empty_dirs_env code) ''dotnet test'' ''/w'' = ''/w/deepseek_test_results''"
  "results_dir_of (one_artifact_env code decoded) ''dotnet test'' ''/w'' = ''/w/deepseek_test_results''"
  by (simp_all add: results_dir_of_def no_results_directory_argument empty_dirs_env_simps
      one_artifact_env_simps)

lemma findLatestTrx_empty_dirs:
  "findLatestTrx (empty_dirs_env code) dir io =
     (None, io\<lparr>io_calls := io_calls io @ [CallReaddir dir]\<rparr>)"
  by (simp add: findLatestTrx_def fs_readdir_def empty_dirs_env_def split: sum.splits)

lemma trx_suffix: "is_trx_file ''results.trx''" "\<not> is_trx_file ''notes.txt''"
  by code_simp+

lemma findLatestTrx_one_artifact:
  "findLatestTrx (one_artifact_env code decoded) dir io =
     (Some (dir @ ''/results.trx''),
      io\<lparr>io_calls := io_calls io @ [CallReaddir dir, CallStat (dir @ ''/results.trx'')]\<rparr>)"
  by (simp add: findLatestTrx_def fs_readdir_def fs_stat_def one_artifact_env_def trx_suffix)

lemma parseTrx_one_artifact:
  "parseTrx (one_artifact_env code decoded) p io =
     (case decoded of Inl e \<Rightarrow> Inl e | Inr json \<Rightarrow> Inr (parseTrx_json json p),
      io\<lparr>io_calls := io_calls io @ [CallReadFile p]\<rparr>)"
  by (simp add: parseTrx_def fs_readFile_def one_artifact_env_def split: sum.splits)

lemma spawn_after_mkdir:
  "spawn_command (empty_dirs_env code) ''dotnet test'' ''/w''
     (ensureDirectory (empty_dirs_env code) ''/w/deepseek_test_results'' (io_init []))
   = (code, \<lparr>io_fs = [''/w/deepseek_test_results''],
             io_calls = [CallMkdir ''/w/deepseek_test_results'', CallSpawn ''dotnet test'' ''/w''],
             io_output = []\<rparr>)"
  "spawn_command (one_artifact_env code decoded) ''dotnet test'' ''/w''
     (ensureDirectory (one_artifact_env code decoded) ''/w/deepseek_test_results'' (io_init ()))
   = (code, \<lparr>io_fs = (),
             io_calls = [CallMkdir ''/w/deepseek_test_results'', CallSpawn ''dotnet test'' ''/w''],
             io_output = [''running'']\<rparr>)"
  by (simp_all add: spawn_command_def ensureDirectory_def fs_mkdir_def io_init_def
      empty_dirs_env_simps one_artifact_env_simps)

lemma runTests_unfold:
  "runTests env command cwd io =
     on_close env (results_dir_of env command cwd)
       (fst (spawn_command env command cwd (ensureDirectory env (results_dir_of env command cwd) io)))
       (snd (spawn_command env command cwd (ensureDirectory env (results_dir_of env command cwd) io)))"
  by (simp add: runTests_def Let_def split: prod.splits)

lemma parseTrx_json_all_passed:
  "parseTrx_json all_passed_doc p =
      \<lparr>success = True, failures = [],
       summary = \<lparr>passed = 1, failed = 0, skipped = 0, total = 1, durationMs = 0\<rparr>,
       resultsFile = Some p\<rparr>"
proof -
  have recs: "trx_records all_passed_doc =
      [XElement \<lparr>attr_outcome = Some ''Passed'', attr_testName = Some ''Foo.Baz'',
                 attr_duration = None, Output = None\<rparr>]"
    by (simp add: all_passed_doc_def trx_records_def utr_slot_def toArray_def falsy_def)
  have low: "toLowerCase ''Passed'' = ''passed''"
    by code_simp
  show ?thesis
    by (simp add: parseTrx_json_def recs as_record_def outcome_of_def String_or_def low
        parseDuration_falsy)
qed

lemma all_green_run:
  "fst (runTests (one_artifact_env code (Inr all_passed_doc)) ''dotnet test'' ''/w'' (io_init ())) =
     \<lparr>success = (code = Some 0 \<or> code = None), failures = [],
      summary = \<lparr>passed = 1, failed = 0, skipped = 0, total = 1, durationMs = 0\<rparr>,
      resultsFile = Some ''/w/deepseek_test_results/results.trx''\<rparr>"
  by (simp add: runTests_unfold default_dir spawn_after_mkdir on_close_def
      findLatestTrx_one_artifact parseTrx_one_artifact parseTrx_json_all_passed)

lemma empty_run:
  "runTests (empty_dirs_env code) ''dotnet test'' ''/w'' (io_init []) =
     (exit_only code,
      \<lparr>io_fs = [''/w/deepseek_test_results''],
       io_calls = [CallMkdir ''/w/deepseek_test_results'', CallSpawn ''dotnet test'' ''/w'',
                   CallReaddir ''/w/deepseek_test_results''],
       io_output = []\<rparr>)"
  by (simp add: runTests_unfold default_dir spawn_after_mkdir on_close_def findLatestTrx_empty_dirs)

lemma run_result_on_close:
  assumes "spawn_command env command cwd (ensureDirectory env (results_dir_of env command cwd) io)
             = (code, io2)"
  shows "runTests env command cwd io = on_close env (results_dir_of env command cwd) code io2"
  using assms by (simp add: runTests_unfold)

text \<open>
  Claim C1, as stated, fails on the exit-only path: with no artifact and an unknown exit
  code (\<open>null\<close>, a process ended by a signal) the failures list is empty and the code is
  unknown, yet \<open>success\<close> is false.
\<close>

theorem success_flag_counterexample:
  "fst (spawn_command (empty_dirs_env None) ''dotnet test'' ''/w''
          (ensureDirectory (empty_dirs_env None)
             (results_dir_of (empty_dirs_env None) ''dotnet test'' ''/w'') (io_init []))) = None
   \<and> failures (fst (runTests (empty_dirs_env None) ''dotnet test'' ''/w'' (io_init []))) = []
   \<and> \<not> success (fst (runTests (empty_dirs_env None) ''dotnet test'' ''/w'' (io_init [])))"
  by (simp add: empty_run default_dir spawn_after_mkdir exit_only_def)

text \<open>
  Claim C1, amended. When an artifact was found and parsed, \<open>success\<close> is true exactly
  when the failures list is empty and the exit code is zero or unknown. When no artifact
  was found or parsing threw, the failures list is empty and \<open>success\<close> is true exactly
  when the exit code is zero.
\<close>

theorem success_flag_by_path:
  assumes "spawn_command env command cwd (ensureDirectory env (results_dir_of env command cwd) io)
             = (code, io2)"
  shows "((\<exists>trx parsed. fst (findLatestTrx env (results_dir_of env command cwd) io2) = Some trx
                        \<and> fst (parseTrx env trx
                                 (snd (findLatestTrx env (results_dir_of env command cwd) io2)))
                            = Inr parsed) \<longrightarrow>
            (success (fst (runTests env command cwd io)) \<longleftrightarrow>
               failures (fst (runTests env command cwd io)) = []
               \<and> (code = Some 0 \<or> code = None)))
       \<and> ((fst (findLatestTrx env (results_dir_of env command cwd) io2) = None
            \<or> (\<exists>trx e. fst (findLatestTrx env (results_dir_of env command cwd) io2) = Some trx
                        \<and> fst (parseTrx env trx
                                 (snd (findLatestTrx env (results_dir_of env command cwd) io2)))
                            = Inl e)) \<longrightarrow>
            failures (fst (runTests env command cwd io)) = []
            \<and> (success (fst (runTests env command cwd io)) \<longleftrightarrow> code = Some 0))"
proof (intro conjI impI)
  assume "\<exists>trx parsed. fst (findLatestTrx env (results_dir_of env command cwd) io2) = Some trx
                        \<and> fst (parseTrx env trx
                                 (snd (findLatestTrx env (results_dir_of env command cwd) io2)))
                            = Inr parsed"
  then obtain trx parsed
    where "fst (findLatestTrx env (results_dir_of env command cwd) io2) = Some trx"
      and "fst (parseTrx env trx (snd (findLatestTrx env (results_dir_of env command cwd) io2)))
             = Inr parsed"
    by blast
  then show "success (fst (runTests env command cwd io)) \<longleftrightarrow>
               failures (fst (runTests env command cwd io)) = []
               \<and> (code = Some 0 \<or> code = None)"
    unfolding run_result_on_close [OF assms] by (rule on_close_parsed)
next
  assume a: "fst (findLatestTrx env (results_dir_of env command cwd) io2) = None
            \<or> (\<exists>trx e. fst (findLatestTrx env (results_dir_of env command cwd) io2) = Some trx
                        \<and> fst (parseTrx env trx
                                 (snd (findLatestTrx env (results_dir_of env command cwd) io2)))
                            = Inl e)"
  have r: "fst (runTests env command cwd io) = exit_only code"
    unfolding run_result_on_close [OF assms] using a by (rule on_close_exit_only)
  show "failures (fst (runTests env command cwd io)) = []"
    by (simp add: r exit_only_def)
  show "success (fst (runTests env command cwd io)) \<longleftrightarrow> code = Some 0"
    by (simp add: r exit_only_def)
qed

text \<open>
  An artifact with no failures and exit code 1 is not a success, with an unknown exit
  code it is; without an artifact an unknown exit code is not a success, exit code 0 is.
\<close>

theorem success_flag_by_path_witness:
  "\<not> success (fst (runTests (one_artifact_env (Some 1) (Inr all_passed_doc)) ''dotnet test'' ''/w'' (io_init ())))
   \<and> failures (fst (runTests (one_artifact_env (Some 1) (Inr all_passed_doc)) ''dotnet test'' ''/w'' (io_init ()))) = []
   \<and> success (fst (runTests (one_artifact_env None (Inr all_passed_doc)) ''dotnet test'' ''/w'' (io_init ())))
   \<and> \<not> success (fst (runTests (empty_dirs_env None) ''dotnet test'' ''/w'' (io_init [])))
   \<and> success (fst (runTests (empty_dirs_env (Some 0)) ''dotnet test'' ''/w'' (io_init [])))"
proof -
  let ?P = "\<lambda>code. one_artifact_env code (Inr all_passed_doc)"
  let ?E = "empty_dirs_env"
  let ?p2 = "\<lparr>io_fs = (),
             io_calls = [CallMkdir ''/w/deepseek_test_results'', CallSpawn ''dotnet test'' ''/w''],
             io_output = [''running'']\<rparr>"
  let ?e2 = "\<lparr>io_fs = [''/w/deepseek_test_results''],
             io_calls = [CallMkdir ''/w/deepseek_test_results'', CallSpawn ''dotnet test'' ''/w''],
             io_output = []\<rparr>"
  have p1: "spawn_command (?P code) ''dotnet test'' ''/w''
              (ensureDirectory (?P code) (results_dir_of (?P code) ''dotnet test'' ''/w'') (io_init ()))
            = (code, ?p2)" for code
    by (simp add: default_dir spawn_after_mkdir)
  have p2: "\<exists>trx parsed. fst (findLatestTrx (?P code) (results_dir_of (?P code) ''dotnet test'' ''/w'') ?p2) = Some trx
              \<and> fst (parseTrx (?P code) trx
                       (snd (findLatestTrx (?P code) (results_dir_of (?P code) ''dotnet test'' ''/w'') ?p2)))
                  = Inr parsed" for code
    by (simp add: findLatestTrx_one_artifact parseTrx_one_artifact)
  have e1: "spawn_command (?E code) ''dotnet test'' ''/w''
              (ensureDirectory (?E code) (results_dir_of (?E code) ''dotnet test'' ''/w'') (io_init []))
            = (code, ?e2)" for code
    by (simp add: default_dir spawn_after_mkdir)
  have e2: "fst (findLatestTrx (?E code) (results_dir_of (?E code) ''dotnet test'' ''/w'') ?e2) = None"
    for code
    by (simp add: findLatestTrx_empty_dirs)
  have f: "failures (fst (runTests (?P code) ''dotnet test'' ''/w'' (io_init ()))) = []" for code
    by (simp add: all_green_run)
  show ?thesis
    using success_flag_by_path [OF p1 [of "Some 1"]] success_flag_by_path [OF p1 [of None]]
      success_flag_by_path [OF e1 [of None]] success_flag_by_path [OF e1 [of "Some 0"]]
      p2 [of "Some 1"] p2 [of None] e2 [of None] e2 [of "Some 0"] f [of "Some 1"] f [of None]
    by simp
qed

text \<open>
  Claim C2. When the locator finds no artifact, or reading or decoding the artifact
  throws, \<open>runTests\<close> resolves the result built from the exit code alone: exit code 0
  gives success with no failures and an all-zero summary; a nonzero exit code gives
  \<open>success = false\<close>, \<open>failed = 1\<close>, \<open>total = 1\<close> and an empty failures list.
\<close>

theorem exit_only_synthesis:
  assumes "spawn_command env command cwd (ensureDirectory env (results_dir_of env command cwd) io)
             = (code, io2)"
    and "fst (findLatestTrx env (results_dir_of env command cwd) io2) = None
         \<or> (\<exists>trx e. fst (findLatestTrx env (results_dir_of env command cwd) io2) = Some trx
                      \<and> fst (parseTrx env trx
                               (snd (findLatestTrx env (results_dir_of env command cwd) io2)))
                          = Inl e)"
  shows "(code = Some 0 \<longrightarrow>
            fst (runTests env command cwd io) =
              \<lparr>success = True, failures = [],
               summary = \<lparr>passed = 0, failed = 0, skipped = 0, total = 0, durationMs = 0\<rparr>,
               resultsFile = None\<rparr>)
       \<and> (\<forall>n. code = Some n \<and> n \<noteq> 0 \<longrightarrow>
            fst (runTests env command cwd io) =
              \<lparr>success = False, failures = [],
               summary = \<lparr>passed = 0, failed = 1, skipped = 0, total = 1, durationMs = 0\<rparr>,
               resultsFile = None\<rparr>)"
proof -
  have "fst (on_close env (results_dir_of env command cwd) code io2) = exit_only code"
    using assms(2) by (rule on_close_exit_only)
  then have "fst (runTests env command cwd io) = exit_only code"
    by (simp add: run_result_on_close [OF assms(1)])
  then show ?thesis
    by (auto simp: exit_only_def)
qed

text \<open>
  Exit code 0 with an empty results directory, and exit code 1 with an artifact that the
  parser rejects.
\<close>

theorem exit_only_synthesis_witness:
  "fst (runTests (empty_dirs_env (Some 0)) ''dotnet test'' ''/w'' (io_init [])) =
     \<lparr>success = True, failures = [],
      summary = \<lparr>passed = 0, failed = 0, skipped = 0, total = 0, durationMs = 0\<rparr>,
      resultsFile = None\<rparr>
   \<and> fst (runTests (one_artifact_env (Some 1) (Inl (new_Error ''not XML''))) ''dotnet test'' ''/w'' (io_init ())) =
     \<lparr>success = False, failures = [],
      summary = \<lparr>passed = 0, failed = 1, skipped = 0, total = 1, durationMs = 0\<rparr>,
      resultsFile = None\<rparr>"
proof -
  let ?A = "empty_dirs_env (Some 0)"
  let ?B = "one_artifact_env (Some 1) (Inl (new_Error ''not XML''))"
  let ?a2 = "\<lparr>io_fs = [''/w/deepseek_test_results''],
             io_calls = [CallMkdir ''/w/deepseek_test_results'', CallSpawn ''dotnet test'' ''/w''],
             io_output = []\<rparr>"
  let ?b2 = "\<lparr>io_fs = (),
             io_calls = [CallMkdir ''/w/deepseek_test_results'', CallSpawn ''dotnet test'' ''/w''],
             io_output = [''running'']\<rparr>"
  have a1: "spawn_command ?A ''dotnet test'' ''/w''
              (ensureDirectory ?A (results_dir_of ?A ''dotnet test'' ''/w'') (io_init []))
            = (Some 0, ?a2)"
    by (simp add: default_dir spawn_after_mkdir)
  have a2: "fst (findLatestTrx ?A (results_dir_of ?A ''dotnet test'' ''/w'') ?a2) = None
            \<or> (\<exists>trx e. fst (findLatestTrx ?A (results_dir_of ?A ''dotnet test'' ''/w'') ?a2) = Some trx
                 \<and> fst (parseTrx ?A trx
                          (snd (findLatestTrx ?A (results_dir_of ?A ''dotnet test'' ''/w'') ?a2)))
                     = Inl e)"
    by (simp add: findLatestTrx_empty_dirs)
  have b1: "spawn_command ?B ''dotnet test'' ''/w''
              (ensureDirectory ?B (results_dir_of ?B ''dotnet test'' ''/w'') (io_init ()))
            = (Some 1, ?b2)"
    by (simp add: default_dir spawn_after_mkdir)
  have b2: "fst (findLatestTrx ?B (results_dir_of ?B ''dotnet test'' ''/w'') ?b2) = None
            \<or> (\<exists>trx e. fst (findLatestTrx ?B (results_dir_of ?B ''dotnet test'' ''/w'') ?b2) = Some trx
                 \<and> fst (parseTrx ?B trx
                          (snd (findLatestTrx ?B (results_dir_of ?B ''dotnet test'' ''/w'') ?b2)))
                     = Inl e)"
    by (simp add: findLatestTrx_one_artifact parseTrx_one_artifact)
  show ?thesis
    using exit_only_synthesis [OF a1 a2] exit_only_synthesis [OF b1 b2] by simp
qed

subsection \<open>The results directory\<close>

lemma re_search_Some_suffix:
  "re_search r s = Some caps \<Longrightarrow>
     \<exists>pre s0 rest. s = pre @ s0 \<and> (rest, caps) \<in> set (re_match r s0 Map.empty)"
proof (induction s)
  case Nil
  then have "\<exists>rest. (rest, caps) \<in> set (re_match r [] Map.empty)"
    by (cases "re_match r [] Map.empty") auto
  then show ?case by blast
next
  case (Cons x t)
  show ?case
  proof (cases "re_match r (x # t) Map.empty")
    case Nil
    with Cons.prems have "re_search r t = Some caps" by simp
    with Cons.IH obtain pre s0 rest where "t = pre @ s0" "(rest, caps) \<in> set (re_match r s0 Map.empty)"
      by blast
    then have "x # t = (x # pre) @ s0" by simp
    with \<open>(rest, caps) \<in> set (re_match r s0 Map.empty)\<close> show ?thesis by blast
  next
    case (Cons p ps)
    with Cons.prems have "p = (fst p, caps)"
      by (cases p) auto
    with Cons have "(fst p, caps) \<in> set (re_match r (x # t) Map.empty)"
      by (metis list.set_intros(1))
    then have "x # t = [] @ (x # t) \<and> (fst p, caps) \<in> set (re_match r (x # t) Map.empty)"
      by simp
    then show ?thesis by blast
  qed
qed

lemma parseResultsDirectory_absent:
  assumes "\<not> (\<exists>pre post. command = pre @ ''--results-directory'' @ post)"
  shows "parseResultsDirectory command = None"
proof (cases "re_search results_directory_re command")
  case None
  then show ?thesis by (simp add: parseResultsDirectory_def)
next
  case (Some groups)
  from re_search_Some_suffix [OF Some] obtain pre s0 rest
    where c: "command = pre @ s0" and "(rest, groups) \<in> set (re_match results_directory_re s0 Map.empty)"
    by blast
  then obtain s1 c1 where "(s1, c1) \<in> set (re_match (Lit ''--results-directory'') s0 Map.empty)"
    unfolding results_directory_re_def re_match_Seq_iff [of _ _ "Lit ''--results-directory''"] by blast
  then have "s0 = ''--results-directory'' @ s1"
    unfolding re_match_Lit_iff by simp
  with c assms show ?thesis by blast
qed

lemma results_dir_default:
  assumes "\<not> (\<exists>pre post. command = pre @ ''--results-directory'' @ post)"
  shows "results_dir_of env command cwd = path_join env cwd ''deepseek_test_results''"
  by (simp add: results_dir_of_def parseResultsDirectory_absent [OF assms])

lemma quoted_results_directory_example:
  "parseResultsDirectory (''dotnet test --results-directory '' @ [dquote] @ ''my results'' @ [dquote] @ '' --no-build'')
     = Some ''my results''"
  by (simp add: parseResultsDirectory_def results_directory_re_def strip_quotes_def is_space_def
      is_quote_def dquote_def squote_def backslash_def)

text \<open>
  Claim C9 (fails on the code). The class for an unquoted path is written \<^verbatim>\<open>[^\\s]+\<close>: it
  excludes the backslash and the letter \<open>s\<close> instead of white space. An unquoted path
  is cut at its first \<open>s\<close> or backslash, and white space does not end it. A quoted
  path is taken whole in the example of lemma \<open>quoted_results_directory_example\<close>, and
  the default is used whenever the flag is absent (lemma \<open>results_dir_default\<close>).
\<close>

theorem unquoted_results_directory_cut:
  "results_dir_of env ''dotnet test --results-directory ./deepseek_test_results'' cwd = ''./deep''
   \<and> results_dir_of env ''dotnet test --results-directory out --no-build'' cwd = ''out --no-build''"
  by (simp add: results_dir_of_def parseResultsDirectory_def results_directory_re_def strip_quotes_def
      is_space_def is_quote_def dquote_def squote_def backslash_def)

subsection \<open>Effects on the file system\<close>

text \<open>
  Claim C10, as stated, fails: before it launches the command, \<open>runTests\<close> calls
  \<open>ensureDirectory\<close>, which creates the results directory. With a command that writes
  nothing, the directory exists after the run on a file system where it did not exist.
\<close>

theorem results_directory_created_counterexample:
  "io_fs (snd (runTests (empty_dirs_env (Some 0)) ''dotnet test'' ''/w'' (io_init [])))
     = [''/w/deepseek_test_results'']
   \<and> snd (snd (spawn (empty_dirs_env (Some 0)) ''dotnet test'' ''/w'' [])) = []
   \<and> io_fs (snd (runTests (empty_dirs_env (Some 0)) ''dotnet test'' ''/w'' (io_init [])))
       \<noteq> snd (snd (spawn (empty_dirs_env (Some 0)) ''dotnet test'' ''/w'' []))
   \<and> io_calls (snd (runTests (empty_dirs_env (Some 0)) ''dotnet test'' ''/w'' (io_init [])))
     = [CallMkdir ''/w/deepseek_test_results'', CallSpawn ''dotnet test'' ''/w'',
        CallReaddir ''/w/deepseek_test_results'']"
  by (simp add: empty_run empty_dirs_env_simps)

lemma fs_read_simps:
  "snd (fs_readdir env dir io) = io\<lparr>io_calls := io_calls io @ [CallReaddir dir]\<rparr>"
  "snd (fs_stat env p io) = io\<lparr>io_calls := io_calls io @ [CallStat p]\<rparr>"
  "snd (fs_readFile env p io) = io\<lparr>io_calls := io_calls io @ [CallReadFile p]\<rparr>"
  by (simp_all add: fs_readdir_def fs_stat_def fs_readFile_def)

lemma stat_all_io:
  "snd (stat_all env dir files io) =
     io\<lparr>io_calls := io_calls io @ map (\<lambda>file. CallStat (path_join env dir file)) files\<rparr>"
proof (induction files arbitrary: io)
  case Nil
  show ?case by simp
next
  case (Cons name files)
  obtain r io1 where s: "fs_stat env (path_join env dir name) io = (r, io1)"
    by (cases "fs_stat env (path_join env dir name) io")
  then have io1: "io1 = io\<lparr>io_calls := io_calls io @ [CallStat (path_join env dir name)]\<rparr>"
    using fs_read_simps(2) [of env "path_join env dir name" io] by simp
  have "snd (stat_all env dir (name # files) io) = snd (stat_all env dir files io1)"
    using s by (simp split: prod.splits)
  then show ?case
    by (simp add: Cons.IH io1)
qed

lemma stat_all_files:
  "fst (stat_all env dir files io) = Inr stats \<Longrightarrow> map fst stats = files"
proof (induction files arbitrary: stats io)
  case Nil
  then show ?case by simp
next
  case (Cons name files)
  obtain r io1 where s: "fs_stat env (path_join env dir name) io = (r, io1)"
    by (cases "fs_stat env (path_join env dir name) io")
  obtain rs io2 where t: "stat_all env dir files io1 = (rs, io2)"
    by (cases "stat_all env dir files io1")
  from Cons.prems s t obtain m sts where "r = Inr m" "rs = Inr sts" "stats = (name, m) # sts"
    by (auto split: sum.splits)
  moreover from t \<open>rs = Inr sts\<close> have "map fst sts = files"
    using Cons.IH [of io1 sts] by simp
  ultimately show ?case by simp
qed

lemma findLatestTrx_calls:
  "\<exists>files. snd (findLatestTrx env dir io) =
            io\<lparr>io_calls := io_calls io @ CallReaddir dir
                              # map (\<lambda>file. CallStat (path_join env dir file)) files\<rparr>
          \<and> (\<forall>f \<in> set files. is_trx_file f)
          \<and> (\<forall>trx. fst (findLatestTrx env dir io) = Some trx \<longrightarrow>
                 (\<exists>file \<in> set files. trx = path_join env dir file))"
proof -
  define io1 where "io1 = io\<lparr>io_calls := io_calls io @ [CallReaddir dir]\<rparr>"
  have rd: "fs_readdir env dir io = (readdir env dir (io_fs io), io1)"
    by (simp add: fs_readdir_def io1_def)
  have none: ?thesis
    if "snd (findLatestTrx env dir io) = io1" "fst (findLatestTrx env dir io) = None"
  proof -
    have a: "snd (findLatestTrx env dir io) =
          io\<lparr>io_calls := io_calls io @ CallReaddir dir
                            # map (\<lambda>file. CallStat (path_join env dir file)) []\<rparr>"
      using that(1) by (simp add: io1_def)
    have b: "\<forall>f \<in> set ([] :: string list). is_trx_file f"
      by simp
    have c: "\<forall>trx. fst (findLatestTrx env dir io) = Some trx \<longrightarrow>
               (\<exists>file \<in> set []. trx = path_join env dir file)"
      using that(2) by simp
    from a b c show ?thesis
      by (intro exI [of _ "[]"] conjI)
  qed
  show ?thesis
  proof (cases "readdir env dir (io_fs io)")
    case (Inl e)
    with rd have "snd (findLatestTrx env dir io) = io1"
      and "fst (findLatestTrx env dir io) = None"
      by (simp_all add: findLatestTrx_def)
    then show ?thesis by (rule none)
  next
    case (Inr listing)
    define trxFiles where "trxFiles = filter is_trx_file listing"
    show ?thesis
    proof (cases "trxFiles = []")
      case True
      with Inr rd have "snd (findLatestTrx env dir io) = io1"
        and "fst (findLatestTrx env dir io) = None"
        by (simp_all add: findLatestTrx_def trxFiles_def)
      then show ?thesis by (rule none)
    next
      case False
      obtain rs io2 where st: "stat_all env dir trxFiles io1 = (rs, io2)"
        by (cases "stat_all env dir trxFiles io1")
      have io2: "io2 = io\<lparr>io_calls := io_calls io @ CallReaddir dir
                              # map (\<lambda>file. CallStat (path_join env dir file)) trxFiles\<rparr>"
        using stat_all_io [of env dir trxFiles io1] st by (simp add: io1_def)
      have unfold: "findLatestTrx env dir io =
          (case rs of
             Inl e \<Rightarrow> (None, io2)
           | Inr stats \<Rightarrow>
               (case sort_key (\<lambda>st. - snd st) stats of
                  [] \<Rightarrow> (None, io2)
                | latest # _ \<Rightarrow> (Some (path_join env dir (fst latest)), io2)))"
        using Inr rd False st by (simp add: findLatestTrx_def trxFiles_def [symmetric])
      have calls: "snd (findLatestTrx env dir io) = io2"
        unfolding unfold by (simp split: sum.splits list.splits)
      have suffix: "\<forall>f \<in> set trxFiles. is_trx_file f"
        by (simp add: trxFiles_def)
      have latest: "\<exists>file \<in> set trxFiles. trx = path_join env dir file"
        if found: "fst (findLatestTrx env dir io) = Some trx" for trx
      proof -
        from found obtain stats latest rest
          where rs: "rs = Inr stats"
            and so: "sort_key (\<lambda>st. - snd st) stats = latest # rest"
            and trx: "trx = path_join env dir (fst latest)"
          unfolding unfold by (auto split: sum.splits list.splits)
        from so have "latest \<in> set stats"
          by (metis list.set_intros(1) set_sort)
        moreover from st rs have "map fst stats = trxFiles"
          using stat_all_files [of env dir trxFiles io1 stats] by simp
        ultimately have "fst latest \<in> set trxFiles"
          by (metis image_eqI set_map)
        with trx show ?thesis by blast
      qed
      have "snd (findLatestTrx env dir io) =
              io\<lparr>io_calls := io_calls io @ CallReaddir dir
                                # map (\<lambda>file. CallStat (path_join env dir file)) trxFiles\<rparr>
          \<and> (\<forall>f \<in> set trxFiles. is_trx_file f)
          \<and> (\<forall>trx. fst (findLatestTrx env dir io) = Some trx \<longrightarrow>
                 (\<exists>file \<in> set trxFiles. trx = path_join env dir file))"
        using calls suffix latest unfolding io2 by (intro conjI allI impI)
      then show ?thesis by (rule exI)
    qed
  qed
qed

lemma parseTrx_io:
  "snd (parseTrx env p io) = io\<lparr>io_calls := io_calls io @ [CallReadFile p]\<rparr>"
  by (simp add: parseTrx_def fs_readFile_def split: sum.splits)

lemma on_close_io:
  "\<exists>files reads.
      io_fs (snd (on_close env dir code io)) = io_fs io
    \<and> io_calls (snd (on_close env dir code io)) =
        io_calls io @ CallReaddir dir # map (\<lambda>file. CallStat (path_join env dir file)) files @ reads
    \<and> (\<forall>f \<in> set files. is_trx_file f)
    \<and> (reads = [] \<or> (\<exists>file \<in> set files. reads = [CallReadFile (path_join env dir file)]))"
proof -
  obtain found io1 where fl: "findLatestTrx env dir io = (found, io1)"
    by (cases "findLatestTrx env dir io")
  from findLatestTrx_calls [of env dir io] fl obtain files
    where io1: "io1 = io\<lparr>io_calls := io_calls io @ CallReaddir dir
                            # map (\<lambda>file. CallStat (path_join env dir file)) files\<rparr>"
      and suffix: "\<forall>f \<in> set files. is_trx_file f"
      and found: "\<And>trx. found = Some trx \<Longrightarrow> \<exists>file \<in> set files. trx = path_join env dir file"
    by auto
  have "\<exists>reads. io_fs (snd (on_close env dir code io)) = io_fs io
          \<and> io_calls (snd (on_close env dir code io)) = io_calls io1 @ reads
          \<and> (reads = [] \<or> (\<exists>file \<in> set files. reads = [CallReadFile (path_join env dir file)]))"
  proof (cases found)
    case None
    with fl io1 show ?thesis by (simp add: on_close_def)
  next
    case (Some trx)
    from found [OF Some] obtain name where f: "name \<in> set files" "trx = path_join env dir name"
      by blast
    obtain r io2 where p: "parseTrx env trx io1 = (r, io2)"
      by (cases "parseTrx env trx io1")
    with parseTrx_io [of env trx io1] have io2: "io2 = io1\<lparr>io_calls := io_calls io1 @ [CallReadFile trx]\<rparr>"
      by simp
    have "io_fs (snd (on_close env dir code io)) = io_fs io
        \<and> io_calls (snd (on_close env dir code io)) = io_calls io1 @ [CallReadFile trx]"
      using fl Some p by (cases r) (simp_all add: on_close_def io2 io1 output_appendLine_def)
    with f show ?thesis by blast
  qed
  then obtain reads where "io_fs (snd (on_close env dir code io)) = io_fs io"
    and "io_calls (snd (on_close env dir code io)) = io_calls io1 @ reads"
    and "reads = [] \<or> (\<exists>file \<in> set files. reads = [CallReadFile (path_join env dir file)])"
    by blast
  with suffix show ?thesis
    unfolding io1 by (intro exI [of _ files] exI [of _ reads]) simp
qed

text \<open>
  Claim C10, amended. \<open>runTests\<close> makes one recursive \<open>mkdir\<close> of the results directory
  before the command is launched, and no other change: the file system it leaves is the one
  the command left, and after the command its calls are one \<open>readdir\<close> of the results
  directory, a \<open>stat\<close> of entries of that directory whose names end in \<open>.trx\<close> and at most
  one \<open>readFile\<close> of one of these.
\<close>

theorem only_mkdir_changes_file_system:
  "io_fs (snd (runTests env command cwd io)) =
     snd (snd (spawn env command cwd (snd (mkdir env (results_dir_of env command cwd) (io_fs io)))))
   \<and> (\<exists>files reads.
         io_calls (snd (runTests env command cwd io)) =
           io_calls io
           @ [CallMkdir (results_dir_of env command cwd), CallSpawn command cwd,
              CallReaddir (results_dir_of env command cwd)]
           @ map (\<lambda>file. CallStat (path_join env (results_dir_of env command cwd) file)) files
           @ reads
         \<and> (\<forall>f \<in> set files. is_trx_file f)
         \<and> (reads = [] \<or> (\<exists>file \<in> set files.
               reads = [CallReadFile (path_join env (results_dir_of env command cwd) file)])))"
proof -
  define dir where "dir = results_dir_of env command cwd"
  define io1 where "io1 = ensureDirectory env dir io"
  obtain code io2 where sp: "spawn_command env command cwd io1 = (code, io2)"
    by (cases "spawn_command env command cwd io1")
  have m: "io_fs io1 = snd (mkdir env dir (io_fs io))" "io_calls io1 = io_calls io @ [CallMkdir dir]"
    by (simp_all add: io1_def ensureDirectory_def fs_mkdir_def split: prod.splits)
  have s: "io_fs io2 = snd (snd (spawn env command cwd (io_fs io1)))"
    "io_calls io2 = io_calls io1 @ [CallSpawn command cwd]"
    using sp by (auto simp: spawn_command_def split: prod.splits)
  have run: "runTests env command cwd io = on_close env dir code io2"
    using sp by (simp add: runTests_unfold dir_def io1_def)
  from on_close_io [of env dir code io2] obtain files reads
    where "io_fs (snd (on_close env dir code io2)) = io_fs io2"
      and "io_calls (snd (on_close env dir code io2)) =
             io_calls io2 @ CallReaddir dir # map (\<lambda>file. CallStat (path_join env dir file)) files @ reads"
      and suffix: "\<forall>f \<in> set files. is_trx_file f"
      and reads: "reads = [] \<or> (\<exists>file \<in> set files. reads = [CallReadFile (path_join env dir file)])"
    by blast
  then have f: "io_fs (snd (runTests env command cwd io)) =
        snd (snd (spawn env command cwd (snd (mkdir env dir (io_fs io)))))"
    and c: "io_calls (snd (runTests env command cwd io)) =
        io_calls io @ [CallMkdir dir, CallSpawn command cwd, CallReaddir dir]
          @ map (\<lambda>file. CallStat (path_join env dir file)) files @ reads"
    by (simp_all add: run m s)
  from c suffix reads have "\<exists>files reads.
         io_calls (snd (runTests env command cwd io)) =
           io_calls io @ [CallMkdir dir, CallSpawn command cwd, CallReaddir dir]
           @ map (\<lambda>file. CallStat (path_join env dir file)) files @ reads
         \<and> (\<forall>f \<in> set files. is_trx_file f)
         \<and> (reads = [] \<or> (\<exists>file \<in> set files. reads = [CallReadFile (path_join env dir file)]))"
    by blast
  with f show ?thesis
    unfolding dir_def by (rule conjI)
qed

text \<open>
  A run that finds and reads one artifact: the file system is unchanged, and the calls are
  the \<open>mkdir\<close>, the command, one \<open>readdir\<close>, one \<open>stat\<close> and one \<open>readFile\<close>.
\<close>

theorem only_mkdir_changes_file_system_witness:
  "io_fs (snd (runTests (one_artifact_env (Some 0) (Inr all_passed_doc)) ''dotnet test'' ''/w'' (io_init ()))) = ()
   \<and> io_calls (snd (runTests (one_artifact_env (Some 0) (Inr all_passed_doc)) ''dotnet test'' ''/w'' (io_init ()))) =
       [CallMkdir ''/w/deepseek_test_results'', CallSpawn ''dotnet test'' ''/w'',
        CallReaddir ''/w/deepseek_test_results'',
        CallStat ''/w/deepseek_test_results/results.trx'',
        CallReadFile ''/w/deepseek_test_results/results.trx'']"
  using only_mkdir_changes_file_system [of "one_artifact_env (Some 0) (Inr all_passed_doc)"
      "''dotnet test''" "''/w''" "io_init ()"]
  by (simp add: runTests_unfold default_dir spawn_after_mkdir on_close_def
      findLatestTrx_one_artifact parseTrx_one_artifact)

section \<open>Properties of the LLM client\<close>

subsection \<open>Retry with backoff\<close>

lemma is_fetch_simps:
  "is_fetch (EvFetch q)" "\<not> is_fetch EvAbort" "\<not> is_fetch (EvLog l)" "\<not> is_fetch (EvSleep n)"
  by (simp_all add: is_fetch_def)

lemma call_trace:
  "trace (snd (call fetch options prompt w)) = trace w @ [EvFetch (build_request options prompt)]
   \<or> trace (snd (call fetch options prompt w)) =
       trace w @ [EvFetch (build_request options prompt), EvAbort]"
  by (simp add: call_def Let_def abort_fires_def elapse_def
      split: prod.splits sum.splits option.splits)

lemma retry_from_unfold:
  "retry_from fetch options prompt a w =
     (if a \<le> 3 then
        (case call fetch options prompt w of
           (Inr g, w1) \<Rightarrow> (Inr g, w1)
         | (Inl e, w1) \<Rightarrow>
             if a = 3 then (Inl e, appendLine (attempt_failed_line a e) w1)
             else retry_from fetch options prompt (a + 1)
                    (sleep (500 * 2 ^ (a - 1)) (appendLine (attempt_failed_line a e) w1)))
      else (Inl (new_Error ''Unexpected retry failure''), w))"
  by (subst retry_from.simps) (simp add: attempts_def Let_def split: prod.split sum.split)

lemma retry_from_3:
  "retry_from fetch options prompt 3 w =
     (case call fetch options prompt w of
        (Inr g, w1) \<Rightarrow> (Inr g, w1)
      | (Inl e, w1) \<Rightarrow> (Inl e, appendLine (attempt_failed_line 3 e) w1))"
  by (subst retry_from_unfold) (simp split: prod.split sum.split)

lemma retry_from_2:
  "retry_from fetch options prompt 2 w =
     (case call fetch options prompt w of
        (Inr g, w1) \<Rightarrow> (Inr g, w1)
      | (Inl e, w1) \<Rightarrow>
          retry_from fetch options prompt 3 (sleep 1000 (appendLine (attempt_failed_line 2 e) w1)))"
  by (subst retry_from_unfold) (simp split: prod.split sum.split)

lemma retry_from_1:
  "retry_from fetch options prompt 1 w =
     (case call fetch options prompt w of
        (Inr g, w1) \<Rightarrow> (Inr g, w1)
      | (Inl e, w1) \<Rightarrow>
          retry_from fetch options prompt 2 (sleep 500 (appendLine (attempt_failed_line 1 e) w1)))"
  by (subst retry_from_unfold) (simp add: numeral_2_eq_2 split: prod.split sum.split)

lemma callWithRetry_unrolled:
  "callWithRetry fetch options prompt w =
     (case call fetch options prompt w of
        (Inr g1, w1) \<Rightarrow> (Inr g1, w1)
      | (Inl e1, w1) \<Rightarrow>
          (case call fetch options prompt (sleep 500 (appendLine (attempt_failed_line 1 e1) w1)) of
             (Inr g2, w2) \<Rightarrow> (Inr g2, w2)
           | (Inl e2, w2) \<Rightarrow>
               (case call fetch options prompt
                       (sleep 1000 (appendLine (attempt_failed_line 2 e2) w2)) of
                  (Inr g3, w3) \<Rightarrow> (Inr g3, w3)
                | (Inl e3, w3) \<Rightarrow> (Inl e3, appendLine (attempt_failed_line 3 e3) w3))))"
  unfolding callWithRetry_def retry_from_1 retry_from_2 retry_from_3 by (rule refl)

lemma call_fetches:
  "call fetch options prompt w = (r, w') \<Longrightarrow>
     length (filter is_fetch (trace w')) = Suc (length (filter is_fetch (trace w)))"
  using call_trace [of fetch options prompt w] by (auto simp: is_fetch_simps)

lemma world_fetches:
  "length (filter is_fetch (trace (appendLine l w))) = length (filter is_fetch (trace w))"
  "length (filter is_fetch (trace (sleep ms w))) = length (filter is_fetch (trace w))"
  by (simp_all add: appendLine_def sleep_def is_fetch_simps)

lemma retry_from_fetches:
  "length (filter is_fetch (trace (snd (retry_from fetch options prompt a w))))
     \<le> length (filter is_fetch (trace w)) + (Suc attempts - a)"
proof (induction fetch options prompt a w rule: retry_from.induct)
  case (1 fetch options prompt attempt w)
  show ?case
  proof (cases "attempt \<le> attempts")
    case False
    then show ?thesis by (subst retry_from.simps) simp
  next
    case True
    obtain r w1 where c: "call fetch options prompt w = (r, w1)"
      by (cases "call fetch options prompt w")
    note f = call_fetches [OF c]
    show ?thesis
    proof (cases r)
      case (Inr g)
      with True c f show ?thesis by (subst retry_from.simps) simp
    next
      case (Inl e)
      show ?thesis
      proof (cases "attempt = attempts")
        case last: True
        with c Inl f show ?thesis
          by (subst retry_from.simps) (simp add: Let_def world_fetches)
      next
        case False
        define w2 where "w2 = appendLine (attempt_failed_line attempt e) w1"
        have "length (filter is_fetch (trace (snd (retry_from fetch options prompt (attempt + 1)
                  (sleep (500 * 2 ^ (attempt - 1)) w2)))))
              \<le> length (filter is_fetch (trace (sleep (500 * 2 ^ (attempt - 1)) w2)))
                  + (Suc attempts - (attempt + 1))"
          using "1.IH" [OF True c [symmetric] _ w2_def False] Inl by simp
        moreover have "retry_from fetch options prompt attempt w =
            retry_from fetch options prompt (attempt + 1) (sleep (500 * 2 ^ (attempt - 1)) w2)"
          using True False c Inl by (subst retry_from.simps) (simp add: Let_def w2_def)
        ultimately show ?thesis
          using True False f by (simp add: world_fetches w2_def)
      qed
    qed
  qed
qed

lemma callWithRetry_fetches:
  "length (filter is_fetch (trace (snd (callWithRetry fetch options prompt w))))
     \<le> length (filter is_fetch (trace w)) + 3"
  using retry_from_fetches [of fetch options prompt 1 w] by (simp add: callWithRetry_def attempts_def)

text \<open>
  Claim C5. \<open>callWithRetry\<close> issues the remote call at most three times, one after the
  other. A failed first attempt is logged and followed by a wait of 500 ms, a failed second
  attempt is logged and followed by a wait of 1000 ms; the first successful attempt ends
  the loop with its result, so a success of the third attempt is returned and no fourth
  attempt is made; when the third attempt fails, its error is logged and thrown.
\<close>

theorem callWithRetry_three_attempts:
  "callWithRetry fetch options prompt w =
     (case call fetch options prompt w of
        (Inr g1, w1) \<Rightarrow> (Inr g1, w1)
      | (Inl e1, w1) \<Rightarrow>
          (case call fetch options prompt (sleep 500 (appendLine (attempt_failed_line 1 e1) w1)) of
             (Inr g2, w2) \<Rightarrow> (Inr g2, w2)
           | (Inl e2, w2) \<Rightarrow>
               (case call fetch options prompt
                       (sleep 1000 (appendLine (attempt_failed_line 2 e2) w2)) of
                  (Inr g3, w3) \<Rightarrow> (Inr g3, w3)
                | (Inl e3, w3) \<Rightarrow> (Inl e3, appendLine (attempt_failed_line 3 e3) w3))))
   \<and> length (filter is_fetch (trace (snd (callWithRetry fetch options prompt w))))
       \<le> length (filter is_fetch (trace w)) + 3"
  using callWithRetry_unrolled [of fetch options prompt w]
    callWithRetry_fetches [of fetch options prompt w] by (rule conjI)

lemma show_nat_examples: "show_nat (Suc 0) = ''1''" "show_nat 1 = ''1''" "show_nat 2 = ''2''" "show_nat 3 = ''3''" "show_nat 503 = ''503''"
  by code_simp+

lemma extractContent_hello: "extractContent hello_data = ''hello''"
  by (simp add: extractContent_def hello_data_def nonempty_def)

lemma call_scripted:
  "call scripted_fetch options prompt \<lparr>net = answer # rest, clock = c, trace = tr\<rparr> =
     (case await_until (timer_delay (timeoutMs options)) answer of
        None \<Rightarrow>
          (Inl (call_catch AbortError),
           \<lparr>net = rest, clock = c + timer_delay (timeoutMs options),
            trace = tr @ [EvFetch (build_request options prompt), EvAbort]\<rparr>)
      | Some (t, Inl err) \<Rightarrow>
          (Inl (call_catch err),
           \<lparr>net = rest, clock = c + t, trace = tr @ [EvFetch (build_request options prompt)]\<rparr>)
      | Some (t, Inr response) \<Rightarrow>
          (case ensureSuccess response of
             Inl err \<Rightarrow>
               (Inl (call_catch err),
                \<lparr>net = rest, clock = c + t, trace = tr @ [EvFetch (build_request options prompt)]\<rparr>)
           | Inr u \<Rightarrow>
               (case await_until (timer_delay (timeoutMs options) - t) (response_json response) of
                  None \<Rightarrow>
                    (Inl (call_catch AbortError),
                     \<lparr>net = rest, clock = c + t + (timer_delay (timeoutMs options) - t),
                      trace = tr @ [EvFetch (build_request options prompt), EvAbort]\<rparr>)
                | Some (b, Inl err) \<Rightarrow>
                    (Inl (call_catch err),
                     \<lparr>net = rest, clock = c + (t + b),
                      trace = tr @ [EvFetch (build_request options prompt)]\<rparr>)
                | Some (b, Inr data) \<Rightarrow>
                    (Inr \<lparr>content = extractContent data, raw = data\<rparr>,
                     \<lparr>net = rest, clock = c + (t + b),
                      trace = tr @ [EvFetch (build_request options prompt)]\<rparr>))))"
  by (simp add: call_def scripted_fetch_def Let_def abort_fires_def elapse_def
      split: option.splits prod.splits sum.splits)

lemma example_timer: "timer_delay (timeoutMs example_options) = 30000"
  by (simp add: timer_delay_def example_options_def)

lemma timer_delay_pos: "0 < timer_delay ms"
  by (simp add: timer_delay_def)

lemma new_Error_simps: "err_message (new_Error m) = m" "err_name (new_Error m) = ''Error''"
  by (simp_all add: new_Error_def)

lemma call_catch_examples:
  "call_catch AbortError = new_Error ''LLM request timed out''"
  "call_catch (new_Error m) = new_Error m"
  "call_catch FetchError = FetchError"
  by (simp_all add: call_catch_def AbortError_def FetchError_def new_Error_def)

lemma example_responses:
  "response_json hello_response = After 20 (Inr hello_data)"
  "response_json slow_body = After 40000 (Inr hello_data)"
  by (simp_all add: hello_response_def slow_body_def)

lemma ensureSuccess_examples:
  "ensureSuccess server_error = Inl (new_Error ''LLM request failed: 503 Service Unavailable'')"
  "ensureSuccess hello_response = Inr ()"
  by (simp_all add: ensureSuccess_def server_error_def hello_response_def show_nat_examples)

text \<open>
  The first two attempts fail and the third succeeds: three requests, waits of 500 ms and
  1000 ms between them, and the result of the third.
\<close>

theorem callWithRetry_three_attempts_witness:
  "callWithRetry scripted_fetch example_options ''prompt'' two_failures_then_success =
     (Inr \<lparr>content = ''hello'', raw = hello_data\<rparr>,
      \<lparr>net = [], clock = 31720,
       trace = [EvFetch (build_request example_options ''prompt''),
                EvAbort,
                EvLog ''[DeepSeek] Attempt 1 failed: LLM request timed out'',
                EvSleep 500,
                EvFetch (build_request example_options ''prompt''),
                EvLog ''[DeepSeek] Attempt 2 failed: LLM request failed: 503 Service Unavailable'',
                EvSleep 1000,
                EvFetch (build_request example_options ''prompt'')]\<rparr>)
   \<and> length (filter is_fetch (trace (snd (callWithRetry scripted_fetch example_options ''prompt''
          two_failures_then_success)))) \<le> 3"
  using callWithRetry_three_attempts [of scripted_fetch example_options "''prompt''"
      two_failures_then_success]
  by (simp add: two_failures_then_success_def call_scripted example_timer await_until_def
      call_catch_examples ensureSuccess_examples example_responses extractContent_hello
      appendLine_def sleep_def attempt_failed_line_def show_nat_examples new_Error_simps
      is_fetch_simps)

subsection \<open>Timeout\<close>

lemma call_catch_abort: "call_catch AbortError = timed_out"
  by (simp add: call_catch_def AbortError_def new_Error_def timed_out_def)

text \<open>
  Claim C8, as stated, fails on the message: when the server stays silent, the timer
  aborts the request after the configured 30 s and \<open>call\<close> throws
  \<open>new Error('LLM request timed out')\<close>, not an error whose message is \<open>request timed out\<close>.
\<close>

theorem timeout_message_counterexample:
  "call scripted_fetch example_options ''prompt'' silent_server =
     (Inl \<lparr>err_name = ''Error'', err_message = ''LLM request timed out''\<rparr>,
      \<lparr>net = [], clock = 30000,
       trace = [EvFetch (build_request example_options ''prompt''), EvAbort]\<rparr>)
   \<and> ''LLM request timed out'' \<noteq> ''request timed out''"
  by (simp add: silent_server_def call_scripted example_timer await_until_def
      call_catch_examples new_Error_def)

lemma call_clock:
  "clock (snd (call fetch options prompt w)) \<le> clock w + timer_delay (timeoutMs options)"
  by (auto simp: call_def Let_def await_until_def abort_fires_def elapse_def
      split: prod.splits sum.splits option.splits timed.splits if_splits)

lemma timer_delay_le: "real (timer_delay ms) \<le> max 1 ms"
  by (simp add: timer_delay_def max_def)

lemma timer_delay_exceeded:
  assumes "0 \<le> ms" and "ms < real t"
  shows "timer_delay ms \<le> t"
proof (cases "ms < 1 \<or> 2147483647 < ms")
  case True
  from assms have "0 < t" by (cases t) simp_all
  with True show ?thesis by (simp add: timer_delay_def)
next
  case False
  then have "timer_delay ms = nat \<lfloor>ms\<rfloor>"
    by (simp add: timer_delay_def)
  moreover have "\<lfloor>ms\<rfloor> \<le> int t"
    using assms(2) by (simp add: floor_le_iff)
  ultimately show ?thesis by simp
qed

lemma call_aborted:
  assumes "fetch (build_request options prompt) (net w) = (arrival, net')"
    and "arrival = Never
         \<or> (\<exists>t x. arrival = After t x \<and> timer_delay (timeoutMs options) \<le> t)
         \<or> (\<exists>t r. arrival = After t (Inr r) \<and> t < timer_delay (timeoutMs options) \<and> ok r
               \<and> (response_json r = Never
                  \<or> (\<exists>b y. response_json r = After b y
                        \<and> timer_delay (timeoutMs options) \<le> t + b)))"
  shows "call fetch options prompt w =
           (Inl timed_out,
            w\<lparr>net := net', clock := clock w + timer_delay (timeoutMs options),
              trace := trace w @ [EvFetch (build_request options prompt), EvAbort]\<rparr>)"
proof -
  define due where "due = timer_delay (timeoutMs options)"
  define w1 where "w1 = w\<lparr>net := net', trace := trace w @ [EvFetch (build_request options prompt)]\<rparr>"
  have unfold: "call fetch options prompt w =
       (case await_until due arrival of
          None \<Rightarrow> (Inl (call_catch AbortError), abort_fires due w1)
        | Some (t, Inl err) \<Rightarrow> (Inl (call_catch err), elapse t w1)
        | Some (t, Inr response) \<Rightarrow>
            (case ensureSuccess response of
               Inl err \<Rightarrow> (Inl (call_catch err), elapse t w1)
             | Inr _ \<Rightarrow>
                 (case await_until (due - t) (response_json response) of
                    None \<Rightarrow> (Inl (call_catch AbortError), abort_fires (due - t) (elapse t w1))
                  | Some (b, Inl err) \<Rightarrow> (Inl (call_catch err), elapse (t + b) w1)
                  | Some (b, Inr data) \<Rightarrow>
                      (Inr \<lparr>content = extractContent data, raw = data\<rparr>, elapse (t + b) w1))))"
    using assms(1) unfolding due_def w1_def by (simp add: call_def Let_def)
  have late: "call fetch options prompt w = (Inl timed_out, abort_fires due w1)"
    if "await_until due arrival = None"
    using that by (simp add: unfold call_catch_abort)
  have a: "abort_fires due w1 =
      w\<lparr>net := net', clock := clock w + due,
        trace := trace w @ [EvFetch (build_request options prompt), EvAbort]\<rparr>"
    by (simp add: abort_fires_def w1_def)
  from assms(2) consider
      (silent) "arrival = Never"
    | (headers) t x where "arrival = After t x" "due \<le> t"
    | (body) t r where "arrival = After t (Inr r)" "t < due" "ok r"
        "response_json r = Never \<or> (\<exists>b y. response_json r = After b y \<and> due \<le> t + b)"
    unfolding due_def by blast
  then have "call fetch options prompt w =
      (Inl timed_out,
       w\<lparr>net := net', clock := clock w + due,
         trace := trace w @ [EvFetch (build_request options prompt), EvAbort]\<rparr>)"
  proof cases
    case silent
    then have "await_until due arrival = None" by (simp add: await_until_def)
    then show ?thesis by (simp add: late a)
  next
    case headers
    then have "await_until due arrival = None" by (simp add: await_until_def)
    then show ?thesis by (simp add: late a)
  next
    case body
    have h: "await_until due arrival = Some (t, Inr r)"
      using body(1,2) by (simp add: await_until_def)
    have e: "ensureSuccess r = Inr ()"
      using body(3) by (simp add: ensureSuccess_def)
    have b: "await_until (due - t) (response_json r) = None"
      using body(4) by (auto simp: await_until_def)
    have "abort_fires (due - t) (elapse t w1) =
        w\<lparr>net := net', clock := clock w + due,
          trace := trace w @ [EvFetch (build_request options prompt), EvAbort]\<rparr>"
      using body(2) by (simp add: abort_fires_def elapse_def w1_def)
    then show ?thesis
      by (simp add: unfold h e b call_catch_abort)
  qed
  then show ?thesis by (simp add: due_def)
qed

text \<open>
  Claim C8, amended. The abort timer is due \<open>timer_delay timeoutMs\<close> ms after the request
  is issued: the configured timeout truncated to whole milliseconds, and 1 ms when the
  configured value is below 1 or above 2147483647; so it is never later than the
  configured timeout (or 1 ms), and an attempt that would take longer than a configured
  timeout of at least 0 is not complete when it fires. No attempt lasts longer than that
  delay, whatever the server does. An attempt that is not complete when the timer fires
  (the headers have not arrived, or they have arrived with a success status and the body
  has not been read) is aborted at that moment, and fails with an \<open>Error\<close> whose message
  is \<open>LLM request timed out\<close>.
\<close>

theorem timeout_error:
  assumes "fetch (build_request options prompt) (net w) = (arrival, net')"
  shows "clock (snd (call fetch options prompt w)) \<le> clock w + timer_delay (timeoutMs options)
       \<and> real (timer_delay (timeoutMs options)) \<le> max 1 (timeoutMs options)
       \<and> (\<forall>t. 0 \<le> timeoutMs options \<and> timeoutMs options < real t \<longrightarrow>
              timer_delay (timeoutMs options) \<le> t)
       \<and> (arrival = Never
          \<or> (\<exists>t x. arrival = After t x \<and> timer_delay (timeoutMs options) \<le> t)
          \<or> (\<exists>t r. arrival = After t (Inr r) \<and> t < timer_delay (timeoutMs options) \<and> ok r
                \<and> (response_json r = Never
                   \<or> (\<exists>b y. response_json r = After b y
                         \<and> timer_delay (timeoutMs options) \<le> t + b)))
          \<longrightarrow>
          call fetch options prompt w =
            (Inl \<lparr>err_name = ''Error'', err_message = ''LLM request timed out''\<rparr>,
             w\<lparr>net := net', clock := clock w + timer_delay (timeoutMs options),
               trace := trace w @ [EvFetch (build_request options prompt), EvAbort]\<rparr>))"
proof (intro conjI allI impI)
  show "clock (snd (call fetch options prompt w)) \<le> clock w + timer_delay (timeoutMs options)"
    by (rule call_clock)
  show "real (timer_delay (timeoutMs options)) \<le> max 1 (timeoutMs options)"
    by (rule timer_delay_le)
  show "timer_delay (timeoutMs options) \<le> t"
    if "0 \<le> timeoutMs options \<and> timeoutMs options < real t" for t
    using that timer_delay_exceeded [of "timeoutMs options" t] by simp
  show "call fetch options prompt w =
            (Inl \<lparr>err_name = ''Error'', err_message = ''LLM request timed out''\<rparr>,
             w\<lparr>net := net', clock := clock w + timer_delay (timeoutMs options),
               trace := trace w @ [EvFetch (build_request options prompt), EvAbort]\<rparr>)"
    if "arrival = Never
          \<or> (\<exists>t x. arrival = After t x \<and> timer_delay (timeoutMs options) \<le> t)
          \<or> (\<exists>t r. arrival = After t (Inr r) \<and> t < timer_delay (timeoutMs options) \<and> ok r
                \<and> (response_json r = Never
                   \<or> (\<exists>b y. response_json r = After b y
                         \<and> timer_delay (timeoutMs options) \<le> t + b)))"
    using call_aborted [of fetch options prompt w arrival net', OF assms that]
    by (simp add: timed_out_def)
qed

text \<open>
  The headers of a 200 response arrive after 100 ms and the body would take 40 s: the call
  fails 30 s after it started. A server that never answers: the same.
\<close>

theorem timeout_error_witness:
  "call scripted_fetch example_options ''prompt'' slow_body_server =
     (Inl \<lparr>err_name = ''Error'', err_message = ''LLM request timed out''\<rparr>,
      \<lparr>net = [], clock = 30000,
       trace = [EvFetch (build_request example_options ''prompt''), EvAbort]\<rparr>)
   \<and> clock (snd (call scripted_fetch example_options ''prompt'' silent_server)) \<le> 30000
   \<and> fst (call scripted_fetch example_options ''prompt'' silent_server) =
       Inl \<lparr>err_name = ''Error'', err_message = ''LLM request timed out''\<rparr>"
proof -
  have a: "scripted_fetch (build_request example_options ''prompt'') (net slow_body_server)
             = (After 100 (Inr slow_body), [])"
    by (simp add: scripted_fetch_def slow_body_server_def)
  have b: "scripted_fetch (build_request example_options ''prompt'') (net silent_server)
             = (Never, [])"
    by (simp add: scripted_fetch_def silent_server_def)
  have s: "ok slow_body" "response_json slow_body = After 40000 (Inr hello_data)"
    by (simp_all add: slow_body_def)
  have w: "slow_body_server\<lparr>net := [], clock := clock slow_body_server + 30000,
             trace := trace slow_body_server @ [EvFetch (build_request example_options ''prompt''), EvAbort]\<rparr>
           = \<lparr>net = [], clock = 30000,
              trace = [EvFetch (build_request example_options ''prompt''), EvAbort]\<rparr>"
    "clock silent_server = 0"
    by (simp_all add: slow_body_server_def silent_server_def)
  show ?thesis
    using timeout_error [of scripted_fetch example_options "''prompt''" slow_body_server
        "After 100 (Inr slow_body)" "[]", OF a]
      timeout_error [of scripted_fetch example_options "''prompt''" silent_server Never "[]", OF b]
    by (simp add: example_timer s w)
qed

subsection \<open>Configuration check and release of the slot\<close>

lemma generate_admitted_release:
  "generate_admitted fetch options prompt s w =
     (completion_of (fst (callWithRetry fetch options prompt w)), fst (release s), snd (release s),
      snd (callWithRetry fetch options prompt w))"
  by (simp add: generate_admitted_def split: prod.splits)

lemma completion_of_not_Suspended: "completion_of r \<noteq> Suspended"
  by (cases r) (simp_all add: completion_of_def)

lemma release_acquire_idle:
  "0 < counter s \<Longrightarrow> queue s = [] \<Longrightarrow> release (snd (acquire c s)) = (None, s)"
  by (simp add: acquire_def release_def Let_def)

text \<open>
  Claim C7. With an empty endpoint URL or an empty credential \<open>generate\<close> throws the
  configuration error and leaves the semaphore and the outside world as they were. With
  both set, a caller that finds a free slot takes it, and whether \<open>callWithRetry\<close> returns
  or throws, \<open>release\<close> runs on the semaphore that \<open>acquire\<close> left (with nobody waiting,
  the semaphore is back in its initial state); a caller that finds no slot is queued, and
  once it is resumed the same \<open>try\<close> block with its \<open>finally\<close> runs and releases.
\<close>

theorem generate_config_check_and_release:
  "(apiUrl options = [] \<longrightarrow>
      generate c fetch options prompt s w =
        (Threw (new_Error ''API URL is not configured (deepseekCSharp.assistant.apiUrl).''), None, s, w))
   \<and> (apiUrl options \<noteq> [] \<and> apiKey options = [] \<longrightarrow>
      generate c fetch options prompt s w =
        (Threw (new_Error ''API key is not configured (deepseekCSharp.assistant.apiKey).''), None, s, w))
   \<and> (apiUrl options \<noteq> [] \<and> apiKey options \<noteq> [] \<and> 0 < counter s \<longrightarrow>
      generate c fetch options prompt s w =
        (completion_of (fst (callWithRetry fetch options prompt w)),
         fst (release (snd (acquire c s))), snd (release (snd (acquire c s))),
         snd (callWithRetry fetch options prompt w)))
   \<and> (0 < counter s \<and> queue s = [] \<longrightarrow> release (snd (acquire c s)) = (None, s))
   \<and> (apiUrl options \<noteq> [] \<and> apiKey options \<noteq> [] \<and> counter s \<le> 0 \<longrightarrow>
      generate c fetch options prompt s w = (Suspended, None, s\<lparr>queue := queue s @ [c]\<rparr>, w))
   \<and> generate_admitted fetch options prompt s w =
        (completion_of (fst (callWithRetry fetch options prompt w)), fst (release s), snd (release s),
         snd (callWithRetry fetch options prompt w))
   \<and> completion_of (fst (callWithRetry fetch options prompt w)) \<noteq> Suspended"
proof -
  have "0 < counter s \<Longrightarrow> fst (acquire c s)"
    by (simp add: acquire_def)
  then have "apiUrl options \<noteq> [] \<Longrightarrow> apiKey options \<noteq> [] \<Longrightarrow> 0 < counter s \<Longrightarrow>
      generate c fetch options prompt s w = generate_admitted fetch options prompt (snd (acquire c s)) w"
    by (cases "acquire c s") (simp add: generate_def)
  moreover have "apiUrl options \<noteq> [] \<Longrightarrow> apiKey options \<noteq> [] \<Longrightarrow> counter s \<le> 0 \<Longrightarrow>
      generate c fetch options prompt s w = (Suspended, None, s\<lparr>queue := queue s @ [c]\<rparr>, w)"
    by (simp add: generate_def acquire_def)
  ultimately show ?thesis
    by (simp add: generate_admitted_release completion_of_not_Suspended release_acquire_idle)
       (simp add: generate_def)
qed

lemma callWithRetry_example:
  "callWithRetry scripted_fetch example_options ''prompt'' two_failures_then_success =
     (Inr \<lparr>content = ''hello'', raw = hello_data\<rparr>,
      \<lparr>net = [], clock = 31720,
       trace = [EvFetch (build_request example_options ''prompt''),
                EvAbort,
                EvLog ''[DeepSeek] Attempt 1 failed: LLM request timed out'',
                EvSleep 500,
                EvFetch (build_request example_options ''prompt''),
                EvLog ''[DeepSeek] Attempt 2 failed: LLM request failed: 503 Service Unavailable'',
                EvSleep 1000,
                EvFetch (build_request example_options ''prompt'')]\<rparr>)"
  by (simp add: callWithRetry_unrolled two_failures_then_success_def call_scripted example_timer
      await_until_def call_catch_examples ensureSuccess_examples example_responses
      extractContent_hello appendLine_def sleep_def attempt_failed_line_def show_nat_examples
      new_Error_simps)

lemma call_unreachable:
  "call scripted_fetch options prompt \<lparr>net = [], clock = c, trace = tr\<rparr> =
     (Inl FetchError,
      \<lparr>net = [], clock = c, trace = tr @ [EvFetch (build_request options prompt)]\<rparr>)"
  by (simp add: call_def scripted_fetch_def Let_def await_until_def timer_delay_pos elapse_def
      call_catch_examples)

lemma callWithRetry_unreachable:
  "callWithRetry scripted_fetch example_options ''prompt'' unreachable_network =
     (Inl FetchError,
      \<lparr>net = [], clock = 1500,
       trace = [EvFetch (build_request example_options ''prompt''),
                EvLog ''[DeepSeek] Attempt 1 failed: network unreachable'',
                EvSleep 500,
                EvFetch (build_request example_options ''prompt''),
                EvLog ''[DeepSeek] Attempt 2 failed: network unreachable'',
                EvSleep 1000,
                EvFetch (build_request example_options ''prompt''),
                EvLog ''[DeepSeek] Attempt 3 failed: network unreachable'']\<rparr>)"
proof -
  have m: "err_message FetchError = ''network unreachable''"
    by (simp add: FetchError_def)
  show ?thesis
    by (simp add: callWithRetry_unrolled unreachable_network_def call_unreachable appendLine_def
        sleep_def attempt_failed_line_def show_nat_examples m)
qed

lemma example_options_simps:
  "apiUrl example_options \<noteq> []" "apiKey example_options \<noteq> []"
  "apiUrl (example_options\<lparr>apiKey := []\<rparr>) \<noteq> []" "apiKey (example_options\<lparr>apiKey := []\<rparr>) = []"
  "apiUrl (example_options\<lparr>apiUrl := []\<rparr>) = []"
  by (simp_all add: example_options_def)

text \<open>
  A missing URL, a missing key, a call that succeeds at the third attempt, a call whose
  three attempts fail, and a call that finds the gate busy.
\<close>

theorem generate_config_check_and_release_witness:
  "generate 0 scripted_fetch (example_options\<lparr>apiUrl := []\<rparr>) ''prompt'' idle_gate
       two_failures_then_success
     = (Threw (new_Error ''API URL is not configured (deepseekCSharp.assistant.apiUrl).''),
        None, idle_gate, two_failures_then_success)
   \<and> generate 0 scripted_fetch (example_options\<lparr>apiKey := []\<rparr>) ''prompt'' idle_gate
       two_failures_then_success
     = (Threw (new_Error ''API key is not configured (deepseekCSharp.assistant.apiKey).''),
        None, idle_gate, two_failures_then_success)
   \<and> fst (generate 0 scripted_fetch example_options ''prompt'' idle_gate two_failures_then_success)
       = Returned \<lparr>content = ''hello'', raw = hello_data\<rparr>
   \<and> fst (snd (snd (generate 0 scripted_fetch example_options ''prompt'' idle_gate
         two_failures_then_success))) = idle_gate
   \<and> fst (generate 0 scripted_fetch example_options ''prompt'' idle_gate unreachable_network)
       = Threw FetchError
   \<and> fst (snd (snd (generate 0 scripted_fetch example_options ''prompt'' idle_gate
         unreachable_network))) = idle_gate
   \<and> generate 0 scripted_fetch example_options ''prompt'' busy_gate unreachable_network
       = (Suspended, None, \<lparr>queue = [7, 0], counter = 0\<rparr>, unreachable_network)"
proof -
  have idle: "0 < counter idle_gate" "queue idle_gate = []"
    by (simp_all add: idle_gate_def)
  have busy: "counter busy_gate \<le> 0" "busy_gate\<lparr>queue := queue busy_gate @ [0]\<rparr> = \<lparr>queue = [7, 0], counter = 0\<rparr>"
    by (simp_all add: busy_gate_def)
  note t1 = generate_config_check_and_release [of "example_options\<lparr>apiUrl := []\<rparr>" 0 scripted_fetch
      "''prompt''" idle_gate two_failures_then_success]
  note t2 = generate_config_check_and_release [of "example_options\<lparr>apiKey := []\<rparr>" 0 scripted_fetch
      "''prompt''" idle_gate two_failures_then_success]
  note t3 = generate_config_check_and_release [of example_options 0 scripted_fetch
      "''prompt''" idle_gate two_failures_then_success]
  note t4 = generate_config_check_and_release [of example_options 0 scripted_fetch
      "''prompt''" idle_gate unreachable_network]
  note t5 = generate_config_check_and_release [of example_options 0 scripted_fetch
      "''prompt''" busy_gate unreachable_network]
  show ?thesis
    using t1 t2 t3 t4 t5
    by (simp add: example_options_simps idle busy callWithRetry_example callWithRetry_unreachable
        completion_of_def)
qed

subsection \<open>The admission gate\<close>

lemma client_semaphore_counter:
  "client_semaphore options = \<lparr>queue = [], counter = max 1 (maxConcurrentRequests options)\<rparr>"
  by (simp add: client_semaphore_def new_Semaphore_def)

lemma gate_inv_init: "gate_inv (max 1 (maxConcurrentRequests options)) (gate_init options)"
  by (simp add: gate_inv_def gate_init_def client_semaphore_counter)

lemma gate_step_inv:
  assumes "gate_inv m s" and "gate_step ev s = Some s'"
  shows "gate_inv m s'"
proof (cases ev)
  case (Call c)
  show ?thesis
  proof (cases "0 < counter (gate_sem s)")
    case True
    with assms(1) have q: "queue (gate_sem s) = []" by (auto simp: gate_inv_def)
    from True assms(2) Call have "s' = s\<lparr>gate_sem := (gate_sem s)\<lparr>counter := counter (gate_sem s) - 1\<rparr>,
        active := active s @ [c], arrived := arrived s @ [c], admitted := admitted s @ [c]\<rparr>"
      by (simp add: acquire_def)
    with assms(1) True q show ?thesis by (simp add: gate_inv_def)
  next
    case False
    from False assms(2) Call have "s' = s\<lparr>gate_sem := (gate_sem s)\<lparr>queue := queue (gate_sem s) @ [c]\<rparr>,
        arrived := arrived s @ [c]\<rparr>"
      by (simp add: acquire_def)
    with assms(1) False show ?thesis by (simp add: gate_inv_def)
  qed
next
  case (Finish c)
  with assms(2) have c: "c \<in> set (active s)"
    by (simp split: if_splits)
  then obtain a as where "active s = a # as"
    by (cases "active s") auto
  then have "length (active s) = Suc (length as)"
    by simp
  with c have len: "real (length (remove1 c (active s))) = real (length (active s)) - 1"
    by (simp add: length_remove1)
  show ?thesis
  proof (cases "queue (gate_sem s)")
    case Nil
    with assms(2) Finish c have "s' = s\<lparr>gate_sem := (gate_sem s)\<lparr>counter := counter (gate_sem s) + 1\<rparr>,
        active := remove1 c (active s)\<rparr>"
      by (simp add: release_def Let_def)
    with assms(1) Nil len show ?thesis by (simp add: gate_inv_def)
  next
    case (Cons nxt rest)
    with assms(1) have z: "counter (gate_sem s) \<le> 0" by (simp add: gate_inv_def)
    from Cons assms(2) Finish c have "s' = s\<lparr>gate_sem := (gate_sem s)\<lparr>queue := rest,
        counter := counter (gate_sem s) + 1 - 1\<rparr>,
        active := remove1 c (active s) @ [nxt], admitted := admitted s @ [nxt]\<rparr>"
      by (simp add: release_def Let_def)
    with assms(1) Cons z len show ?thesis by (simp add: gate_inv_def)
  qed
qed

lemma gate_run_inv:
  "gate_inv m s \<Longrightarrow> gate_run evs s = Some s' \<Longrightarrow> gate_inv m s'"
proof (induction evs arbitrary: s)
  case Nil
  then show ?case by simp
next
  case (Cons ev evs)
  then obtain s1 where s1: "gate_step ev s = Some s1" and r: "gate_run evs s1 = Some s'"
    by (auto split: option.splits)
  from Cons.prems(1) s1 have "gate_inv m s1" by (rule gate_step_inv)
  with r show ?case by (rule Cons.IH [rotated])
qed

lemma holders_bound:
  assumes "- 1 < cnt" and "cnt + real k = m"
  shows "int k \<le> \<lceil>m\<rceil>"
proof -
  from assms have "real_of_int (int k - 1) < m" by simp
  then have "int k - 1 < \<lceil>m\<rceil>" by (simp only: less_ceiling_iff)
  then show ?thesis by simp
qed

lemma holders_full:
  assumes "- 1 < cnt" and "cnt + real k = m" and "cnt \<le> 0"
  shows "int k = \<lceil>m\<rceil>"
proof -
  from assms(2,3) have "m \<le> real_of_int (int k)" by simp
  then have "\<lceil>m\<rceil> \<le> int k" by (simp only: ceiling_le_iff)
  with holders_bound [OF assms(1,2)] show ?thesis by simp
qed

lemma gate_run_examples:
  "gate_run [Call 1, Call 2, Call 3, Call 4, Finish 2] (gate_init example_options)
     = Some four_callers_state"
  "gate_run [Call 1, Call 2, Call 3, Finish 1] (gate_init unclamped_options) = Some clamped_state"
  "gate_run [Call 1, Call 2, Call 3, Call 4, Finish 2] (gate_init fractional_options)
     = Some fractional_full_state"
  "gate_run [Call 1, Call 2, Call 3] (gate_init fractional_options) = Some three_admitted_state"
  by (simp_all add: gate_init_def client_semaphore_def new_Semaphore_def example_options_def
      unclamped_options_def fractional_options_def acquire_def release_def
      four_callers_state_def clamped_state_def fractional_full_state_def three_admitted_state_def)

text \<open>
  Claim C6, as stated, fails for a ceiling that is not a whole number: the counter starts
  from the configured number itself, and a caller is let through as long as the counter is
  above 0. With a ceiling of 2.5 three callers hold a slot at the same time.
\<close>

theorem fractional_ceiling_counterexample:
  "1 \<le> maxConcurrentRequests fractional_options
   \<and> gate_run [Call 1, Call 2, Call 3] (gate_init fractional_options) = Some three_admitted_state
   \<and> active three_admitted_state = [1, 2, 3]
   \<and> maxConcurrentRequests fractional_options < real (length (active three_admitted_state))"
proof -
  have a: "1 \<le> maxConcurrentRequests fractional_options"
    by (simp add: fractional_options_def)
  have b: "active three_admitted_state = [1, 2, 3]"
    by (simp add: three_admitted_state_def)
  have c: "maxConcurrentRequests fractional_options < real (length (active three_admitted_state))"
    by (simp add: fractional_options_def three_admitted_state_def)
  show ?thesis
    by (intro conjI) (fact a b c gate_run_examples(4))+
qed

text \<open>
  Claim C6, amended. With a configured ceiling \<open>c\<close> the counter starts from \<open>max 1 c\<close>, and
  after any sequence of calls and completions at most \<open>max 1 c\<close> rounded up to a whole
  number of callers hold a slot: at most \<open>n\<close> for a whole ceiling \<open>n \<ge> 1\<close>, and at most one
  for a ceiling below 1. The callers let through so far, followed by the waiting queue,
  are the callers in their order of arrival, so nobody is let through ahead of an earlier
  caller; and while somebody waits, that many callers hold a slot.
\<close>

theorem gate_bounded_fifo:
  assumes "gate_run evs (gate_init options) = Some s"
  shows "int (length (active s)) \<le> \<lceil>max 1 (maxConcurrentRequests options)\<rceil>
       \<and> (\<forall>n. 1 \<le> n \<and> maxConcurrentRequests options = real n \<longrightarrow> length (active s) \<le> n)
       \<and> (maxConcurrentRequests options < 1 \<longrightarrow> length (active s) \<le> 1)
       \<and> arrived s = admitted s @ queue (gate_sem s)
       \<and> (queue (gate_sem s) \<noteq> [] \<longrightarrow>
            int (length (active s)) = \<lceil>max 1 (maxConcurrentRequests options)\<rceil>)"
proof -
  define m where "m = max 1 (maxConcurrentRequests options)"
  have "gate_inv m s"
    unfolding m_def using gate_inv_init assms by (rule gate_run_inv)
  then have cnt: "- 1 < counter (gate_sem s)"
    and sum: "counter (gate_sem s) + real (length (active s)) = m"
    and wait: "queue (gate_sem s) \<noteq> [] \<Longrightarrow> counter (gate_sem s) \<le> 0"
    and fifo: "arrived s = admitted s @ queue (gate_sem s)"
    by (auto simp: gate_inv_def)
  have bound: "int (length (active s)) \<le> \<lceil>m\<rceil>"
    using cnt sum by (rule holders_bound)
  have whole: "length (active s) \<le> n" if "1 \<le> n \<and> maxConcurrentRequests options = real n" for n
  proof -
    from that have "m = real n" by (simp add: m_def)
    with bound show ?thesis by simp
  qed
  have low: "length (active s) \<le> 1" if "maxConcurrentRequests options < 1"
  proof -
    from that have "m = 1" by (simp add: m_def)
    with bound show ?thesis by simp
  qed
  have full: "int (length (active s)) = \<lceil>m\<rceil>" if "queue (gate_sem s) \<noteq> []"
    using cnt sum wait [OF that] by (rule holders_full)
  from bound whole low fifo full show ?thesis
    unfolding m_def by blast
qed

text \<open>
  Four callers on two slots, three callers on a ceiling configured as \<open>-5\<close>, and four
  callers on a ceiling configured as \<open>2.5\<close>.
\<close>

theorem gate_bounded_fifo_witness:
  "gate_run [Call 1, Call 2, Call 3, Call 4, Finish 2] (gate_init example_options)
     = Some four_callers_state
   \<and> length (active four_callers_state) \<le> 2
   \<and> arrived four_callers_state = admitted four_callers_state @ queue (gate_sem four_callers_state)
   \<and> gate_run [Call 1, Call 2, Call 3, Finish 1] (gate_init unclamped_options) = Some clamped_state
   \<and> length (active clamped_state) \<le> 1
   \<and> arrived clamped_state = admitted clamped_state @ queue (gate_sem clamped_state)
   \<and> gate_run [Call 1, Call 2, Call 3, Call 4, Finish 2] (gate_init fractional_options)
       = Some fractional_full_state
   \<and> int (length (active fractional_full_state)) \<le> 3"
proof -
  have n: "1 \<le> (2::nat) \<and> maxConcurrentRequests example_options = real 2"
    "maxConcurrentRequests unclamped_options < 1"
    "\<lceil>max 1 (maxConcurrentRequests fractional_options)\<rceil> = 3"
    by (simp_all add: example_options_def unclamped_options_def fractional_options_def)
  have a: "length (active four_callers_state) \<le> 2"
    "arrived four_callers_state = admitted four_callers_state @ queue (gate_sem four_callers_state)"
    using gate_bounded_fifo [OF gate_run_examples(1)] n(1) by blast+
  have b: "length (active clamped_state) \<le> 1"
    "arrived clamped_state = admitted clamped_state @ queue (gate_sem clamped_state)"
    using gate_bounded_fifo [OF gate_run_examples(2)] n(2) by blast+
  have c: "int (length (active fractional_full_state)) \<le> 3"
    using gate_bounded_fifo [OF gate_run_examples(3)] n(3) by simp
  show ?thesis
    by (intro conjI) (fact a b c gate_run_examples(1,2,3))+
qed

end
